theory Spec2Isabelle
  imports Complex_Main "HOL-Library.AList"
begin

section \<open>Common data: errors, run-time values, task status\<close>

text \<open>
  Every failure of the task core is a JavaScript \<^verbatim>\<open>new Error(message)\<close>; the kinds the
  specification names (NotFound, InvalidTransition, ...) are told apart by the message only.
  An operation that may throw returns \<open>error + 'a\<close>, with \<open>Inl\<close> the thrown error.
\<close>

datatype error = Error string

text \<open>
  Values typed \<^verbatim>\<open>any\<close> in the source (service instances, task inputs and outputs).
  A number is a finite one (\<open>Num\<close>, the two zeros being one value), \<open>NaN\<close>, or an
  infinity with its sign (\<open>Infinity True\<close> the positive one); \<open>BigInt\<close> is a big
  integer; \<open>Obj\<close> stands for a reference to some object, an array or a function.
  \<open>truthy\<close> is JavaScript's ToBoolean, which the source applies in guards such as
  \<^verbatim>\<open>if (!service)\<close>: the falsy values are \<^verbatim>\<open>undefined\<close>, \<^verbatim>\<open>null\<close>, \<^verbatim>\<open>false\<close>, the zeros,
  \<^verbatim>\<open>NaN\<close>, \<^verbatim>\<open>0n\<close> and the empty string.
\<close>

datatype js_value =
  Undefined | Null | Bool bool | Num real | NaN | Infinity bool | BigInt int | Str string | Obj nat

fun truthy :: "js_value \<Rightarrow> bool" where
  "truthy Undefined = False"
| "truthy Null = False"
| "truthy (Bool b) = b"
| "truthy (Num n) = (n \<noteq> 0)"
| "truthy NaN = False"
| "truthy (Infinity sign) = True"
| "truthy (BigInt n) = (n \<noteq> 0)"
| "truthy (Str s) = (s \<noteq> [])"
| "truthy (Obj r) = True"

text \<open>The enum \<^verbatim>\<open>TaskStatus\<close> and the string each member stands for.\<close>

datatype TaskStatus =
  CREATED | QUEUED | RUNNING | PAUSED | COMPLETED | FAILED | CANCELLED | RETRYING

fun status_str :: "TaskStatus \<Rightarrow> string" where
  "status_str CREATED = ''created''"
| "status_str QUEUED = ''queued''"
| "status_str RUNNING = ''running''"
| "status_str PAUSED = ''paused''"
| "status_str COMPLETED = ''completed''"
| "status_str FAILED = ''failed''"
| "status_str CANCELLED = ''cancelled''"
| "status_str RETRYING = ''retrying''"

text \<open>
  A JavaScript \<^verbatim>\<open>Map\<close> is an association list in insertion order:
  \<^verbatim>\<open>get\<close> is \<open>map_of\<close>, \<^verbatim>\<open>has k\<close> is \<open>map_of m k \<noteq> None\<close>,
  \<^verbatim>\<open>set\<close> is \<open>AList.update\<close> (an existing key keeps its place, a new one goes last),
  \<^verbatim>\<open>delete\<close> is \<open>AList.delete\<close> and \<^verbatim>\<open>keys\<close> is \<open>map fst\<close>.
\<close>

definition has :: "('k \<times> 'v) list \<Rightarrow> 'k \<Rightarrow> bool" where
  "has m k = (map_of m k \<noteq> None)"

text \<open>
  \<^verbatim>\<open>String(n)\<close> of a non-negative integer, as the template literals of the source
  render a counter or a time stamp: its decimal digits.
\<close>

definition digit :: "nat \<Rightarrow> char" where
  "digit d = ''0123456789'' ! d"

function number_toString :: "nat \<Rightarrow> string" where
  "number_toString n =
     (if n < 10 then [digit n] else number_toString (n div 10) @ [digit (n mod 10)])"
  by pat_completeness auto
termination
  by (relation "measure (\<lambda>n. n)") auto

declare number_toString.simps [simp del]

section \<open>ServiceRegistry\<close>

record ServiceConfig =
  singleton :: "bool option"
  dependencies :: "string list option"
  tags :: "string list option"

record TaskServiceRegistry =
  services :: "(string \<times> js_value) list"
  serviceConfigs :: "(string \<times> ServiceConfig) list"

definition TaskServiceRegistry_new :: TaskServiceRegistry where
  "TaskServiceRegistry_new = \<lparr>services = [], serviceConfigs = []\<rparr>"

text \<open>
  \<^verbatim>\<open>getService\<close> reads the map and throws on \<^verbatim>\<open>!service\<close>: \<^verbatim>\<open>get\<close> of an absent key is
  \<^verbatim>\<open>undefined\<close>, and a stored value that is falsy takes the same branch.
\<close>

definition getService :: "TaskServiceRegistry \<Rightarrow> string \<Rightarrow> error + js_value" where
  "getService r serviceId =
     (let service = (case map_of (services r) serviceId of None \<Rightarrow> Undefined | Some v \<Rightarrow> v) in
      if \<not> truthy service then Inl (Error (''Service '' @ serviceId @ '' not found''))
      else Inr service)"

definition registerService ::
  "TaskServiceRegistry \<Rightarrow> string \<Rightarrow> js_value \<Rightarrow> error + TaskServiceRegistry" where
  "registerService r serviceId service =
     (if has (services r) serviceId
      then Inl (Error (''Service '' @ serviceId @ '' is already registered''))
      else Inr (r\<lparr>services := AList.update serviceId service (services r)\<rparr>))"

definition unregisterService :: "TaskServiceRegistry \<Rightarrow> string \<Rightarrow> error + TaskServiceRegistry" where
  "unregisterService r serviceId =
     (if \<not> has (services r) serviceId
      then Inl (Error (''Service '' @ serviceId @ '' is not registered''))
      else Inr (r\<lparr>services := AList.delete serviceId (services r),
                  serviceConfigs := AList.delete serviceId (serviceConfigs r)\<rparr>))"

definition hasService :: "TaskServiceRegistry \<Rightarrow> string \<Rightarrow> bool" where
  "hasService r serviceId = has (services r) serviceId"

definition getServiceIds :: "TaskServiceRegistry \<Rightarrow> string list" where
  "getServiceIds r = map fst (services r)"

definition ServiceRegistry_clear :: "TaskServiceRegistry \<Rightarrow> TaskServiceRegistry" where
  "ServiceRegistry_clear r = r\<lparr>services := [], serviceConfigs := []\<rparr>"

section \<open>Tasks and task types\<close>

record RetryPolicy =
  maxRetries :: int
  backoffMs :: int
  exponential :: bool

record ResourceLimits =
  maxMemory :: int
  maxCpu :: int
  maxConcurrent :: int

record TaskConfig =
  timeout :: int
  retryPolicy :: RetryPolicy
  resourceLimits :: ResourceLimits
  environment :: "(string \<times> js_value) list"

record TaskContext =
  inputs :: "(string \<times> js_value) list"
  config :: TaskConfig
  ctx_services :: TaskServiceRegistry
  isCancellationRequested :: bool

text \<open>A \<^verbatim>\<open>TaskResult\<close> without its metrics, which are clock readings.\<close>

record TaskResult =
  r_success :: bool
  r_output :: js_value

text \<open>
  The interface \<^verbatim>\<open>Task\<close>. Its asynchronous methods are the outcomes they settle with:
  \<open>execute\<close> resolves with a result (\<open>Inr\<close>) or rejects with an error (\<open>Inl\<close>), and
  \<open>cancel\<close>, \<open>pause\<close>, \<open>resume\<close> reject with \<open>Some e\<close> or resolve with \<open>None\<close>.
  Dates are clock readings in milliseconds.
\<close>

record Task =
  task_id :: string
  task_type :: string
  status :: TaskStatus
  task_priority :: int
  createdAt :: nat
  updatedAt :: nat
  execute :: "TaskContext \<Rightarrow> error + TaskResult"
  cancel :: "string option \<Rightarrow> error option"
  pause :: "error option"
  resume :: "error option"

record TaskType =
  tt_name :: string
  tt_description :: string
  tt_version :: string
  tt_priority :: int
  tt_config :: TaskConfig
  tt_createTask :: "string \<Rightarrow> (string \<times> js_value) list \<Rightarrow> Task"

section \<open>TaskStateMachine\<close>

text \<open>
  \<open>transitions\<close> is the field \<^verbatim>\<open>Map<TaskStatus, Set<TaskStatus>>\<close>, a set being the
  list of its members in insertion order.
\<close>

type_synonym transitions = "(TaskStatus \<times> TaskStatus list) list"

definition defineTransitions :: "transitions \<Rightarrow> transitions" where
  "defineTransitions t0 =
     (let t1 = AList.update CREATED [QUEUED, RUNNING, CANCELLED] t0;
          t2 = AList.update QUEUED [RUNNING, CANCELLED] t1;
          t3 = AList.update RUNNING [COMPLETED, FAILED, CANCELLED, PAUSED] t2;
          t4 = AList.update PAUSED [RUNNING, CANCELLED] t3;
          t5 = AList.update FAILED [QUEUED] t4;
          t6 = AList.update CANCELLED [QUEUED] t5;
          t7 = AList.update RETRYING [QUEUED, RUNNING, CANCELLED] t6
      in t7)"

text \<open>The constructor: an empty map, then \<^verbatim>\<open>defineTransitions()\<close>.\<close>

definition TaskStateMachineImpl :: transitions where
  "TaskStateMachineImpl = defineTransitions []"

definition canTransition :: "transitions \<Rightarrow> TaskStatus \<Rightarrow> TaskStatus \<Rightarrow> bool" where
  "canTransition t from to =
     (case map_of t from of None \<Rightarrow> False | Some allowedStates \<Rightarrow> to \<in> set allowedStates)"

definition getAllowedTransitions :: "transitions \<Rightarrow> TaskStatus \<Rightarrow> TaskStatus list" where
  "getAllowedTransitions t st =
     (case map_of t st of None \<Rightarrow> [] | Some allowedStates \<Rightarrow> allowedStates)"

definition addTransition :: "transitions \<Rightarrow> TaskStatus \<Rightarrow> TaskStatus \<Rightarrow> transitions" where
  "addTransition t from to =
     (let t' = (if \<not> has t from then AList.update from [] t else t);
          s = getAllowedTransitions t' from
      in AList.update from (if to \<in> set s then s else s @ [to]) t')"

definition removeTransition :: "transitions \<Rightarrow> TaskStatus \<Rightarrow> TaskStatus \<Rightarrow> transitions" where
  "removeTransition t from to =
     (case map_of t from of None \<Rightarrow> t
      | Some allowedStates \<Rightarrow> AList.update from (removeAll to allowedStates) t)"

text \<open>
  \<^verbatim>\<open>transition(task, to)\<close>. It reads \<^verbatim>\<open>task.status\<close>, throws on an edge that is
  not in the graph, and otherwise writes one line to the console. The two assignments
  \<^verbatim>\<open>task.status = to\<close> and \<^verbatim>\<open>task.updatedAt = new Date()\<close> are commented out in the
  source, so the model has no use for the current time \<open>now\<close> and hands the task back
  as it came. The result is the task after the call and the console line.
\<close>

definition transition ::
  "transitions \<Rightarrow> nat \<Rightarrow> Task \<Rightarrow> TaskStatus \<Rightarrow> error + (Task \<times> string)" where
  "transition t now task to =
     (let from = status task in
      if \<not> canTransition t from to
      then Inl (Error (''Invalid state transition from '' @ status_str from @ '' to '' @ status_str to))
      else Inr (task, ''Task '' @ task_id task @ '' transitioned from '' @ status_str from
                        @ '' to '' @ status_str to))"

text \<open>
  The canonical table of section 4.2 of the specification, row by row, written from the
  specification's words and not from the code.
\<close>

definition canonical_table :: "(TaskStatus \<times> TaskStatus) list" where
  "canonical_table =
     [(CREATED, QUEUED), (CREATED, RUNNING), (CREATED, CANCELLED),
      (QUEUED, RUNNING), (QUEUED, CANCELLED),
      (RUNNING, COMPLETED), (RUNNING, FAILED), (RUNNING, CANCELLED), (RUNNING, PAUSED),
      (PAUSED, RUNNING), (PAUSED, CANCELLED),
      (FAILED, QUEUED),
      (CANCELLED, QUEUED),
      (RETRYING, QUEUED), (RETRYING, RUNNING), (RETRYING, CANCELLED)]"


section \<open>TaskRegistry\<close>

record TaskTypeConfig =
  ttc_enabled :: bool
  ttc_priority :: int
  ttc_settings :: "(string \<times> js_value) list"
  ttc_dependencies :: "string list option"
  ttc_tags :: "string list option"

record TaskRegistryImpl =
  taskTypes :: "(string \<times> TaskType) list"
  taskTypeConfigs :: "(string \<times> TaskTypeConfig) list"

definition TaskRegistryImpl_new :: TaskRegistryImpl where
  "TaskRegistryImpl_new = \<lparr>taskTypes = [], taskTypeConfigs = []\<rparr>"

definition register :: "TaskRegistryImpl \<Rightarrow> TaskType \<Rightarrow> error + TaskRegistryImpl" where
  "register r taskType =
     (if has (taskTypes r) (tt_name taskType)
      then Inl (Error (''Task type '' @ tt_name taskType @ '' is already registered''))
      else Inr (r\<lparr>taskTypes := AList.update (tt_name taskType) taskType (taskTypes r)\<rparr>))"

definition unregister :: "TaskRegistryImpl \<Rightarrow> string \<Rightarrow> error + TaskRegistryImpl" where
  "unregister r taskTypeName =
     (if \<not> has (taskTypes r) taskTypeName
      then Inl (Error (''Task type '' @ taskTypeName @ '' is not registered''))
      else Inr (r\<lparr>taskTypes := AList.delete taskTypeName (taskTypes r),
                  taskTypeConfigs := AList.delete taskTypeName (taskTypeConfigs r)\<rparr>))"

definition getTaskType :: "TaskRegistryImpl \<Rightarrow> string \<Rightarrow> TaskType option" where
  "getTaskType r taskTypeName = map_of (taskTypes r) taskTypeName"

definition getAllTaskTypes :: "TaskRegistryImpl \<Rightarrow> TaskType list" where
  "getAllTaskTypes r = map snd (taskTypes r)"

definition hasTaskType :: "TaskRegistryImpl \<Rightarrow> string \<Rightarrow> bool" where
  "hasTaskType r taskTypeName = has (taskTypes r) taskTypeName"

definition getTaskTypeNames :: "TaskRegistryImpl \<Rightarrow> string list" where
  "getTaskTypeNames r = map fst (taskTypes r)"

definition registerTaskTypeConfig ::
  "TaskRegistryImpl \<Rightarrow> string \<Rightarrow> TaskTypeConfig \<Rightarrow> error + TaskRegistryImpl" where
  "registerTaskTypeConfig r taskTypeName cfg =
     (if \<not> hasTaskType r taskTypeName
      then Inl (Error (''Task type '' @ taskTypeName @ '' is not registered''))
      else Inr (r\<lparr>taskTypeConfigs := AList.update taskTypeName cfg (taskTypeConfigs r)\<rparr>))"

definition getTaskTypeConfig :: "TaskRegistryImpl \<Rightarrow> string \<Rightarrow> TaskTypeConfig option" where
  "getTaskTypeConfig r taskTypeName = map_of (taskTypeConfigs r) taskTypeName"

section \<open>TaskFactory\<close>

text \<open>
  The factory holds a reference to the registry and its own cache. The model keeps the
  registry inside the factory's state, since none of the factory's operations writes it.
\<close>

record TaskFactoryImpl =
  f_registry :: TaskRegistryImpl
  taskCache :: "(string \<times> Task) list"


text \<open>
  \<^verbatim>\<open>createTask(taskTypeName, id, inputs)\<close>: the task and the factory after the call.
  A task object is always truthy, so \<^verbatim>\<open>if (cachedTask)\<close> is a test for presence.
\<close>

definition createTask ::
  "TaskFactoryImpl \<Rightarrow> string \<Rightarrow> string \<Rightarrow> (string \<times> js_value) list
     \<Rightarrow> error + (Task \<times> TaskFactoryImpl)" where
  "createTask f taskTypeName ident inp =
     (case getTaskType (f_registry f) taskTypeName of
        None \<Rightarrow> Inl (Error (''Task type '' @ taskTypeName @ '' not found''))
      | Some taskType \<Rightarrow>
          (let cacheKey = taskTypeName @ '':'' @ ident in
           case map_of (taskCache f) cacheKey of
             Some cachedTask \<Rightarrow> Inr (cachedTask, f)
           | None \<Rightarrow>
               (let task = tt_createTask taskType ident inp
                in Inr (task, f\<lparr>taskCache := AList.update cacheKey task (taskCache f)\<rparr>))))"




text \<open>
  The builder of \<^verbatim>\<open>createTaskBuilder(taskTypeName)\<close> is its closure variables; \<^verbatim>\<open>id\<close>
  and \<^verbatim>\<open>priority\<close> are declared without a value, so they start out undefined (\<open>None\<close>).
\<close>

record TaskBuilder =
  b_taskTypeName :: string
  b_id :: "string option"
  b_inputs :: "(string \<times> js_value) list"
  b_priority :: "int option"

definition createTaskBuilder :: "string \<Rightarrow> TaskBuilder" where
  "createTaskBuilder taskTypeName =
     \<lparr>b_taskTypeName = taskTypeName, b_id = None, b_inputs = [], b_priority = None\<rparr>"

definition withId :: "TaskBuilder \<Rightarrow> string \<Rightarrow> TaskBuilder" where
  "withId b taskId = b\<lparr>b_id := Some taskId\<rparr>"

definition withInputs :: "TaskBuilder \<Rightarrow> (string \<times> js_value) list \<Rightarrow> TaskBuilder" where
  "withInputs b taskInputs =
     b\<lparr>b_inputs := foldl (\<lambda>acc (k, v). AList.update k v acc) (b_inputs b) taskInputs\<rparr>"

definition withInput :: "TaskBuilder \<Rightarrow> string \<Rightarrow> js_value \<Rightarrow> TaskBuilder" where
  "withInput b k v = b\<lparr>b_inputs := AList.update k v (b_inputs b)\<rparr>"

definition withPriority :: "TaskBuilder \<Rightarrow> int \<Rightarrow> TaskBuilder" where
  "withPriority b taskPriority = b\<lparr>b_priority := Some taskPriority\<rparr>"

text \<open>
  \<^verbatim>\<open>build()\<close> tests \<^verbatim>\<open>!id\<close>, which holds of an id that was never set and of the empty
  string.
\<close>

definition build :: "TaskFactoryImpl \<Rightarrow> TaskBuilder \<Rightarrow> error + (Task \<times> TaskFactoryImpl)" where
  "build f b =
     (case b_id b of
        None \<Rightarrow> Inl (Error ''Task ID is required'')
      | Some ident \<Rightarrow>
          if ident = [] then Inl (Error ''Task ID is required'')
          else createTask f (b_taskTypeName b) ident (b_inputs b))"

section \<open>PluginManager\<close>

record PluginConfig =
  pc_enabled :: bool
  pc_priority :: int
  pc_settings :: "(string \<times> js_value) list"

record PluginContext =
  pctx_registry :: TaskRegistryImpl
  pctx_services :: TaskServiceRegistry
  pctx_config :: PluginConfig

text \<open>
  The interface \<^verbatim>\<open>TaskPlugin\<close>. \<^verbatim>\<open>initialize(context)\<close> is handed the registry, the
  service registry and the configuration object themselves, not copies, and may write
  to them before it settles: it is a function from the three objects as they are to its
  outcome (it rejects with \<open>Some e\<close> or resolves with \<open>None\<close>) and the three objects as
  it leaves them. \<^verbatim>\<open>destroy()\<close> is handed nothing and is the outcome it settles with.
\<close>

record TaskPlugin =
  plugin_name :: string
  plugin_version :: string
  plugin_description :: string
  initialize :: "PluginContext \<Rightarrow> error option \<times> PluginContext"
  destroy :: "error option"
  getTaskTypes :: "TaskType list"

text \<open>
  What \<^verbatim>\<open>await import(pluginPath)\<close>, the choice of the export, \<^verbatim>\<open>new PluginClass()\<close>
  and \<^verbatim>\<open>isValidPlugin\<close> come to for one path: the import or the constructor throws, the
  module has no usable export, the instance fails the structural check, or it is a plugin.
  The module system is a parameter of \<open>loadPlugin\<close>, a function from paths to these.
\<close>

datatype imported =
  ImportThrows error
| NoPluginClass
| ConstructorThrows error
| InvalidStructure
| Plugin TaskPlugin

record PluginManagerImpl =
  plugins :: "(string \<times> TaskPlugin) list"
  pluginConfigs :: "(string \<times> PluginConfig) list"
  pm_registry :: TaskRegistryImpl
  pm_services :: TaskServiceRegistry

definition PluginManagerImpl_new :: "TaskRegistryImpl \<Rightarrow> TaskServiceRegistry \<Rightarrow> PluginManagerImpl" where
  "PluginManagerImpl_new r s = \<lparr>plugins = [], pluginConfigs = [], pm_registry = r, pm_services = s\<rparr>"

text \<open>The \<^verbatim>\<open>catch\<close> clauses of \<^verbatim>\<open>loadPlugin\<close> and \<^verbatim>\<open>unloadPlugin\<close>.\<close>

fun load_error :: "string \<Rightarrow> error \<Rightarrow> error" where
  "load_error pluginPath (Error msg) = Error (''Failed to load plugin from '' @ pluginPath @ '': '' @ msg)"


text \<open>
  The loop \<^verbatim>\<open>for (const taskType of taskTypes) this.registry.register(taskType)\<close>:
  the registry as the loop leaves it, and the error that ended it, if any.
\<close>

fun register_all :: "TaskRegistryImpl \<Rightarrow> TaskType list \<Rightarrow> error option \<times> TaskRegistryImpl" where
  "register_all r [] = (None, r)"
| "register_all r (taskType # rest) =
     (case register r taskType of
        Inl e \<Rightarrow> (Some e, r)
      | Inr r' \<Rightarrow> register_all r' rest)"

text \<open>
  The \<^verbatim>\<open>PluginContext\<close> that \<^verbatim>\<open>loadPlugin\<close> hands to \<^verbatim>\<open>initialize\<close>: the registry, the
  services, and the plugin's registered configuration or a default one.
\<close>

definition loadPlugin_context :: "PluginManagerImpl \<Rightarrow> TaskPlugin \<Rightarrow> PluginContext" where
  "loadPlugin_context pm plugin =
     \<lparr>pctx_registry = pm_registry pm, pctx_services = pm_services pm,
      pctx_config =
        (case map_of (pluginConfigs pm) (plugin_name plugin) of
           Some c \<Rightarrow> c
         | None \<Rightarrow> \<lparr>pc_enabled = True, pc_priority = 5, pc_settings = []\<rparr>)\<rparr>"

text \<open>
  The manager once \<^verbatim>\<open>initialize\<close> has settled and left the three objects as \<open>context'\<close>.
  The registry and the services are the manager's own. The configuration object is the
  one in \<^verbatim>\<open>pluginConfigs\<close> when the plugin has one; the default configuration is a new
  object that nothing else refers to.
\<close>

definition after_initialize ::
  "PluginManagerImpl \<Rightarrow> TaskPlugin \<Rightarrow> PluginContext \<Rightarrow> PluginManagerImpl" where
  "after_initialize pm plugin context' =
     pm\<lparr>pm_registry := pctx_registry context',
        pm_services := pctx_services context',
        pluginConfigs :=
          (if has (pluginConfigs pm) (plugin_name plugin)
           then AList.update (plugin_name plugin) (pctx_config context') (pluginConfigs pm)
           else pluginConfigs pm)\<rparr>"

definition loadPlugin ::
  "(string \<Rightarrow> imported) \<Rightarrow> PluginManagerImpl \<Rightarrow> string \<Rightarrow> (error + unit) \<times> PluginManagerImpl" where
  "loadPlugin import pm pluginPath =
     (case import pluginPath of
        ImportThrows e \<Rightarrow> (Inl (load_error pluginPath e), pm)
      | NoPluginClass \<Rightarrow>
          (Inl (load_error pluginPath (Error (''No plugin class found in '' @ pluginPath))), pm)
      | ConstructorThrows e \<Rightarrow> (Inl (load_error pluginPath e), pm)
      | InvalidStructure \<Rightarrow>
          (Inl (load_error pluginPath (Error (''Invalid plugin structure in '' @ pluginPath))), pm)
      | Plugin plugin \<Rightarrow>
          if has (plugins pm) (plugin_name plugin)
          then (Inl (load_error pluginPath
                       (Error (''Plugin '' @ plugin_name plugin @ '' is already loaded''))), pm)
          else
            (case initialize plugin (loadPlugin_context pm plugin) of
               (Some e, context') \<Rightarrow>
                 (Inl (load_error pluginPath e), after_initialize pm plugin context')
             | (None, context') \<Rightarrow>
                 (let pm1 = after_initialize pm plugin context' in
                  case register_all (pm_registry pm1) (getTaskTypes plugin) of
                    (Some e, r') \<Rightarrow> (Inl (load_error pluginPath e), pm1\<lparr>pm_registry := r'\<rparr>)
                  | (None, r') \<Rightarrow>
                      (Inr (), pm1\<lparr>pm_registry := r',
                                   plugins := AList.update (plugin_name plugin) plugin (plugins pm1)\<rparr>))))"



definition getLoadedPlugins :: "PluginManagerImpl \<Rightarrow> string list" where
  "getLoadedPlugins pm = map fst (plugins pm)"


definition registerPluginConfig :: "PluginManagerImpl \<Rightarrow> string \<Rightarrow> PluginConfig \<Rightarrow> PluginManagerImpl" where
  "registerPluginConfig pm pluginName cfg =
     pm\<lparr>pluginConfigs := AList.update pluginName cfg (pluginConfigs pm)\<rparr>"


section \<open>TaskManager\<close>

record TaskManagerImpl =
  tasks :: "(string \<times> Task) list"
  taskStates :: "(string \<times> TaskStatus) list"
  activeTasks :: "(string \<times> Task) list"
  serviceRegistry :: TaskServiceRegistry
  stateMachine :: transitions

definition TaskManagerImpl_new :: TaskManagerImpl where
  "TaskManagerImpl_new =
     \<lparr>tasks = [], taskStates = [], activeTasks = [],
      serviceRegistry = TaskServiceRegistry_new, stateMachine = TaskStateMachineImpl\<rparr>"

text \<open>
  \<^verbatim>\<open>generateTaskId()\<close> reads the clock and the random generator; the model takes both
  readings as arguments, the random part already as the string it is rendered to.
\<close>

definition generateTaskId :: "nat \<Rightarrow> string \<Rightarrow> string" where
  "generateTaskId now rnd = ''task-'' @ number_toString now @ ''-'' @ rnd"

text \<open>The mock task that \<^verbatim>\<open>createTask\<close> of the manager builds.\<close>

definition mockTask :: "string \<Rightarrow> string \<Rightarrow> nat \<Rightarrow> Task" where
  "mockTask taskId taskType now =
     \<lparr>task_id = taskId, task_type = taskType, status = CREATED, task_priority = 5,
      createdAt = now, updatedAt = now,
      execute = (\<lambda>context. Inr \<lparr>r_success = True,
                                 r_output = Str (''Task '' @ taskId @ '' executed successfully'')\<rparr>),
      cancel = (\<lambda>reason. None), pause = None, resume = None\<rparr>"

definition TaskManager_createTask ::
  "TaskManagerImpl \<Rightarrow> nat \<Rightarrow> string \<Rightarrow> string \<Rightarrow> (string \<times> js_value) list
     \<Rightarrow> string \<times> TaskManagerImpl" where
  "TaskManager_createTask m now rnd taskType inp =
     (let taskId = generateTaskId now rnd;
          task = mockTask taskId taskType now
      in (taskId, m\<lparr>tasks := AList.update taskId task (tasks m),
                    taskStates := AList.update taskId CREATED (taskStates m)\<rparr>))"

definition getTaskStatus :: "TaskManagerImpl \<Rightarrow> string \<Rightarrow> TaskStatus option" where
  "getTaskStatus m taskId = map_of (taskStates m) taskId"

definition getActiveTasks :: "TaskManagerImpl \<Rightarrow> string list" where
  "getActiveTasks m = map fst (activeTasks m)"

definition getTask :: "TaskManagerImpl \<Rightarrow> string \<Rightarrow> Task option" where
  "getTask m taskId = map_of (tasks m) taskId"

text \<open>
  \<^verbatim>\<open>executeTask\<close> in the two halves that the \<^verbatim>\<open>await\<close> of \<^verbatim>\<open>task.execute\<close> divides it
  into. \<open>executeTask_start\<close> is the code up to the call: the two checks, the entry in the
  active set, the status \<open>RUNNING\<close> and the context. \<open>executeTask_settle\<close> is the code
  after it, for either outcome: the terminal status, then the \<^verbatim>\<open>finally\<close> clause.
  \<open>executeTask\<close> is one call with nothing running in between.
\<close>

definition executeTask_context :: "TaskManagerImpl \<Rightarrow> TaskContext" where
  "executeTask_context m =
     \<lparr>inputs = [],
      config = \<lparr>timeout = 30000,
                retryPolicy = \<lparr>maxRetries = 3, backoffMs = 1000, exponential = False\<rparr>,
                resourceLimits = \<lparr>maxMemory = 100, maxCpu = 80, maxConcurrent = 10\<rparr>,
                environment = []\<rparr>,
      ctx_services = serviceRegistry m,
      isCancellationRequested = False\<rparr>"

definition executeTask_start ::
  "TaskManagerImpl \<Rightarrow> string \<Rightarrow> error + (Task \<times> TaskContext \<times> TaskManagerImpl)" where
  "executeTask_start m taskId =
     (case map_of (tasks m) taskId of
        None \<Rightarrow> Inl (Error (''Task '' @ taskId @ '' not found''))
      | Some task \<Rightarrow>
          (let currentStatus = map_of (taskStates m) taskId in
           if currentStatus \<noteq> Some CREATED \<and> currentStatus \<noteq> Some QUEUED
           then Inl (Error (''Task '' @ taskId @ '' is not in executable state''))
           else
             (let m1 = m\<lparr>activeTasks := AList.update taskId task (activeTasks m)\<rparr>;
                  m2 = m1\<lparr>taskStates := AList.update taskId RUNNING (taskStates m1)\<rparr>
              in Inr (task, executeTask_context m2, m2))))"

definition executeTask_settle ::
  "TaskManagerImpl \<Rightarrow> string \<Rightarrow> error + TaskResult \<Rightarrow> (error + TaskResult) \<times> TaskManagerImpl" where
  "executeTask_settle m taskId outcome =
     (case outcome of
        Inr result \<Rightarrow>
          (let m3 = m\<lparr>taskStates := AList.update taskId COMPLETED (taskStates m)\<rparr>
           in (Inr result, m3\<lparr>activeTasks := AList.delete taskId (activeTasks m3)\<rparr>))
      | Inl err \<Rightarrow>
          (let m3 = m\<lparr>taskStates := AList.update taskId FAILED (taskStates m)\<rparr>
           in (Inl err, m3\<lparr>activeTasks := AList.delete taskId (activeTasks m3)\<rparr>)))"

definition executeTask ::
  "TaskManagerImpl \<Rightarrow> string \<Rightarrow> (error + TaskResult) \<times> TaskManagerImpl" where
  "executeTask m taskId =
     (case executeTask_start m taskId of
        Inl e \<Rightarrow> (Inl e, m)
      | Inr (task, context, m2) \<Rightarrow> executeTask_settle m2 taskId (execute task context))"

definition cancelTask ::
  "TaskManagerImpl \<Rightarrow> string \<Rightarrow> string option \<Rightarrow> (error + unit) \<times> TaskManagerImpl" where
  "cancelTask m taskId reason =
     (case map_of (tasks m) taskId of
        None \<Rightarrow> (Inl (Error (''Task '' @ taskId @ '' not found'')), m)
      | Some task \<Rightarrow>
          (case cancel task reason of
             Some e \<Rightarrow> (Inl e, m)
           | None \<Rightarrow>
               (let m1 = m\<lparr>taskStates := AList.update taskId CANCELLED (taskStates m)\<rparr>
                in (Inr (), m1\<lparr>activeTasks := AList.delete taskId (activeTasks m1)\<rparr>))))"

definition pauseTask :: "TaskManagerImpl \<Rightarrow> string \<Rightarrow> (error + unit) \<times> TaskManagerImpl" where
  "pauseTask m taskId =
     (case map_of (tasks m) taskId of
        None \<Rightarrow> (Inl (Error (''Task '' @ taskId @ '' not found'')), m)
      | Some task \<Rightarrow>
          if map_of (taskStates m) taskId \<noteq> Some RUNNING
          then (Inl (Error (''Task '' @ taskId @ '' is not running'')), m)
          else (case pause task of
                  Some e \<Rightarrow> (Inl e, m)
                | None \<Rightarrow> (Inr (), m\<lparr>taskStates := AList.update taskId PAUSED (taskStates m)\<rparr>)))"

definition resumeTask :: "TaskManagerImpl \<Rightarrow> string \<Rightarrow> (error + unit) \<times> TaskManagerImpl" where
  "resumeTask m taskId =
     (case map_of (tasks m) taskId of
        None \<Rightarrow> (Inl (Error (''Task '' @ taskId @ '' is not paused'')), m)
      | Some task \<Rightarrow>
          if map_of (taskStates m) taskId \<noteq> Some PAUSED
          then (Inl (Error (''Task '' @ taskId @ '' is not paused'')), m)
          else (case resume task of
                  Some e \<Rightarrow> (Inl e, m)
                | None \<Rightarrow> (Inr (), m\<lparr>taskStates := AList.update taskId RUNNING (taskStates m)\<rparr>)))"

text \<open>
  \<^verbatim>\<open>dispose()\<close> calls \<^verbatim>\<open>cancel\<close> on every active task, sends a rejection to the console,
  and clears the three maps and the service registry.
\<close>

definition dispose :: "TaskManagerImpl \<Rightarrow> TaskManagerImpl" where
  "dispose m =
     m\<lparr>activeTasks := [], tasks := [], taskStates := [],
       serviceRegistry := ServiceRegistry_clear (serviceRegistry m)\<rparr>"

section \<open>Example objects\<close>

text \<open>
  Concrete task types, plugins and component states, on which the theorems below are
  instantiated. \<open>simpleType\<close> is the task type the unit tests of the factory build:
  its \<^verbatim>\<open>createTask\<close> returns a task that carries the id it was given.
\<close>

definition simpleTask :: "string \<Rightarrow> string \<Rightarrow> Task" where
  "simpleTask typeName ident =
     \<lparr>task_id = ident, task_type = typeName, status = CREATED, task_priority = 5,
      createdAt = 0, updatedAt = 0,
      execute = (\<lambda>context. Inr \<lparr>r_success = True, r_output = Undefined\<rparr>),
      cancel = (\<lambda>reason. None), pause = None, resume = None\<rparr>"

definition simpleType :: "string \<Rightarrow> TaskType" where
  "simpleType typeName =
     \<lparr>tt_name = typeName, tt_description = ''A test task'', tt_version = ''1.0.0'',
      tt_priority = 5,
      tt_config = \<lparr>timeout = 30000,
                   retryPolicy = \<lparr>maxRetries = 3, backoffMs = 1000, exponential = False\<rparr>,
                   resourceLimits = \<lparr>maxMemory = 100, maxCpu = 80, maxConcurrent = 10\<rparr>,
                   environment = []\<rparr>,
      tt_createTask = (\<lambda>ident inp. simpleTask typeName ident)\<rparr>"

definition simplePlugin :: "string \<Rightarrow> string list \<Rightarrow> error option \<Rightarrow> TaskPlugin" where
  "simplePlugin pluginName typeNames destroyOutcome =
     \<lparr>plugin_name = pluginName, plugin_version = ''1.0.0'', plugin_description = ''A test plugin'',
      initialize = (\<lambda>context. (None, context)), destroy = destroyOutcome,
      getTaskTypes = map simpleType typeNames\<rparr>"

text \<open>A service registry that holds a logger.\<close>

definition logger_registry :: TaskServiceRegistry where
  "logger_registry = \<lparr>services = [(''logger'', Obj 1)], serviceConfigs = []\<rparr>"


text \<open>A task registry that holds two types, each with a configuration.\<close>

definition two_registry :: TaskRegistryImpl where
  "two_registry =
     \<lparr>taskTypes = [(''echo'', simpleType ''echo''), (''build'', simpleType ''build'')],
      taskTypeConfigs =
        [(''echo'', \<lparr>ttc_enabled = True, ttc_priority = 5, ttc_settings = [],
                     ttc_dependencies = None, ttc_tags = None\<rparr>),
         (''build'', \<lparr>ttc_enabled = False, ttc_priority = 10, ttc_settings = [],
                      ttc_dependencies = None, ttc_tags = None\<rparr>)]\<rparr>"


text \<open>
  An \<open>initialize\<close> that registers a type Y in the registry it is handed and then
  rejects.
\<close>

definition register_then_reject :: "PluginContext \<Rightarrow> error option \<times> PluginContext" where
  "register_then_reject context =
     (Some (Error ''init failed''),
      context\<lparr>pctx_registry :=
        (case register (pctx_registry context) (simpleType ''Y'') of
           Inr r \<Rightarrow> r | Inl e \<Rightarrow> pctx_registry context)\<rparr>)"



text \<open>
  A module system with six modules. One exports a plugin \<open>ab\<close> with the task types A
  and B; one exports a plugin \<open>boom\<close> with the task type X, whose \<open>destroy\<close> rejects;
  one exports a plugin \<open>bad\<close> whose \<open>initialize\<close> rejects without a write, and one a
  plugin \<open>worse\<close> whose \<open>initialize\<close> registers a type and then rejects; one exports
  nothing usable; one exports a class whose instances are not plugins. Any other path
  fails to resolve.
\<close>

definition modules :: "string \<Rightarrow> imported" where
  "modules pluginPath =
     (if pluginPath = ''/plugins/ab.js'' then Plugin (simplePlugin ''ab'' [''A'', ''B''] None)
      else if pluginPath = ''/plugins/boom.js''
      then Plugin (simplePlugin ''boom'' [''X''] (Some (Error ''boom'')))
      else if pluginPath = ''/plugins/bad.js''
      then Plugin ((simplePlugin ''bad'' [''Z''] None)
                     \<lparr>initialize := (\<lambda>context. (Some (Error ''init failed''), context))\<rparr>)
      else if pluginPath = ''/plugins/worse.js''
      then Plugin ((simplePlugin ''worse'' [''Y''] None)\<lparr>initialize := register_then_reject\<rparr>)
      else if pluginPath = ''/plugins/empty.js'' then NoPluginClass
      else if pluginPath = ''/plugins/shape.js'' then InvalidStructure
      else ImportThrows (Error (''Cannot find module '' @ pluginPath)))"

text \<open>A new plugin manager over a registry in which the host has registered a type B.\<close>

definition host_manager :: PluginManagerImpl where
  "host_manager =
     PluginManagerImpl_new \<lparr>taskTypes = [(''B'', simpleType ''B'')], taskTypeConfigs = []\<rparr>
       TaskServiceRegistry_new"

text \<open>A plugin manager that has a configuration for \<open>boom\<close> and has loaded it.\<close>

definition boom_manager :: PluginManagerImpl where
  "boom_manager =
     snd (loadPlugin modules
            (registerPluginConfig (PluginManagerImpl_new TaskRegistryImpl_new TaskServiceRegistry_new)
               ''boom'' \<lparr>pc_enabled = True, pc_priority = 7, pc_settings = []\<rparr>)
            ''/plugins/boom.js'')"

text \<open>
  Task managers: after one \<^verbatim>\<open>createTask\<close> at time 1000; after that task was executed;
  while it executes; while it executes and is paused; and one with a queued task whose
  \<open>execute\<close> rejects, as a test double would.
\<close>

definition created_manager :: TaskManagerImpl where
  "created_manager = snd (TaskManager_createTask TaskManagerImpl_new 1000 ''k3j9x2m1q'' ''echo'' [])"

definition completed_manager :: TaskManagerImpl where
  "completed_manager = snd (executeTask created_manager ''task-1000-k3j9x2m1q'')"

definition running_manager :: TaskManagerImpl where
  "running_manager =
     (case executeTask_start created_manager ''task-1000-k3j9x2m1q'' of
        Inr (task, context, m) \<Rightarrow> m | Inl e \<Rightarrow> created_manager)"

definition paused_manager :: TaskManagerImpl where
  "paused_manager = snd (pauseTask running_manager ''task-1000-k3j9x2m1q'')"

definition failing_manager :: TaskManagerImpl where
  "failing_manager =
     TaskManagerImpl_new
       \<lparr>tasks := [(''t2'', (mockTask ''t2'' ''echo'' 0)\<lparr>execute := (\<lambda>context. Inl (Error ''boom''))\<rparr>)],
        taskStates := [(''t2'', QUEUED)]\<rparr>"

section \<open>Properties of the state machine\<close>

lemma TaskStateMachineImpl_graph:
  "TaskStateMachineImpl =
     [(CREATED, [QUEUED, RUNNING, CANCELLED]),
      (QUEUED, [RUNNING, CANCELLED]),
      (RUNNING, [COMPLETED, FAILED, CANCELLED, PAUSED]),
      (PAUSED, [RUNNING, CANCELLED]),
      (FAILED, [QUEUED]),
      (CANCELLED, [QUEUED]),
      (RETRYING, [QUEUED, RUNNING, CANCELLED])]"
  by (simp add: TaskStateMachineImpl_def defineTransitions_def Let_def)

lemma canTransition_iff_table:
  "canTransition TaskStateMachineImpl a b \<longleftrightarrow> (a, b) \<in> set canonical_table"
  by (cases a; cases b;
      simp add: canTransition_def TaskStateMachineImpl_graph canonical_table_def)

lemma transition_rejects:
  "\<not> canTransition t (status task) to \<Longrightarrow>
   transition t now task to =
     Inl (Error (''Invalid state transition from '' @ status_str (status task)
                 @ '' to '' @ status_str to))"
  by (simp add: transition_def)

lemma transition_accepts:
  "canTransition t (status task) to \<Longrightarrow> \<exists>line. transition t now task to = Inr (task, line)"
  by (simp add: transition_def)

text \<open>
  Claim C3. On the graph the constructor builds, \<open>canTransition a b\<close> is true exactly
  when \<open>(a, b)\<close> is a row entry of the canonical table of section 4.2. The state
  \<open>completed\<close> has no outgoing edge, in the table and in the graph. On any graph, a
  source state that has no entry gives \<open>False\<close>, a value and not an error.
\<close>

theorem canTransition_canonical:
  "(canTransition TaskStateMachineImpl a b \<longleftrightarrow> (a, b) \<in> set canonical_table)
   \<and> filter (\<lambda>e. fst e = COMPLETED) canonical_table = []
   \<and> getAllowedTransitions TaskStateMachineImpl COMPLETED = []
   \<and> (map_of t a' = None \<longrightarrow> canTransition t a' b' = False)"
  by (simp add: canTransition_iff_table canonical_table_def getAllowedTransitions_def
        TaskStateMachineImpl_graph canTransition_def)

theorem canTransition_canonical_witness:
  "map_of TaskStateMachineImpl COMPLETED = None
   \<and> canTransition TaskStateMachineImpl COMPLETED QUEUED = False
   \<and> canTransition TaskStateMachineImpl FAILED QUEUED
   \<and> \<not> canTransition TaskStateMachineImpl FAILED RUNNING"
  using canTransition_canonical [of FAILED QUEUED TaskStateMachineImpl COMPLETED QUEUED]
        canTransition_canonical [of FAILED RUNNING TaskStateMachineImpl COMPLETED QUEUED]
  by (simp add: TaskStateMachineImpl_graph canonical_table_def)

text \<open>
  Claim C2. \<open>transition\<close> reads the source state from the task and rejects an edge that
  is not in the graph with a message naming both states (\<open>transition_rejects\<close>). On an
  edge that is in the graph it does not commit: for a task in status \<open>created\<close> whose
  update time is 1000, a transition to \<open>running\<close> at time 2000 is accepted and logged,
  and the task that comes back is the task that went in, status \<open>created\<close> and update
  time 1000.
\<close>

theorem transition_accepted_leaves_task:
  "transition TaskStateMachineImpl 2000 (mockTask ''t1'' ''echo'' 1000) RUNNING
     = Inr (mockTask ''t1'' ''echo'' 1000, ''Task t1 transitioned from created to running'')
   \<and> canTransition TaskStateMachineImpl CREATED RUNNING
   \<and> status (mockTask ''t1'' ''echo'' 1000) = CREATED
   \<and> updatedAt (mockTask ''t1'' ''echo'' 1000) = 1000"
  by (simp add: transition_def canTransition_def TaskStateMachineImpl_graph mockTask_def)

section \<open>Properties of the service registry\<close>

lemma has_update [simp]: "has (AList.update k v m) k' \<longleftrightarrow> k' = k \<or> has m k'"
  by (simp add: has_def update_conv')

lemma has_delete [simp]: "has (AList.delete k m) k' \<longleftrightarrow> k' \<noteq> k \<and> has m k'"
  by (simp add: has_def delete_conv')

lemma registerService_contract:
  "(hasService r i \<longrightarrow>
      registerService r i v = Inl (Error (''Service '' @ i @ '' is already registered'')))
   \<and> (\<not> hasService r i \<longrightarrow>
      (\<exists>r'. registerService r i v = Inr r' \<and> map_of (services r') i = Some v \<and> hasService r' i))"
  by (auto simp add: registerService_def hasService_def update_conv')

lemma getService_throws_iff:
  "(getService r i = Inl (Error (''Service '' @ i @ '' not found'')))
     \<longleftrightarrow> (map_of (services r) i = None \<or> (\<exists>w. map_of (services r) i = Some w \<and> \<not> truthy w))"
  by (auto simp add: getService_def Let_def split: option.splits)

lemma getService_returns:
  "map_of (services r) i = Some w \<Longrightarrow> truthy w \<Longrightarrow> getService r i = Inr w"
  by (simp add: getService_def)

text \<open>
  Claim C7. \<open>registerService\<close> fails with AlreadyRegistered when the id is registered
  and otherwise stores the instance, and \<open>getService\<close> of an id that was never
  registered fails with NotFound, as claimed. The claim also says that \<open>getService\<close>
  fails only then and returns the registered instance otherwise. The code does not:
  after \<^verbatim>\<open>registerService("zero", 0)\<close> on a new registry \<^verbatim>\<open>hasService("zero")\<close> is true and
  a second registration is refused as already registered, yet \<^verbatim>\<open>getService("zero")\<close>
  throws \<open>Service zero not found\<close>. The same happens for the registered instances
  \<^verbatim>\<open>false\<close>, the empty string, \<^verbatim>\<open>NaN\<close> and \<^verbatim>\<open>null\<close>.
\<close>

theorem getService_registered_falsy_throws:
  "registerService TaskServiceRegistry_new ''zero'' (Num 0)
     = Inr \<lparr>services = [(''zero'', Num 0)], serviceConfigs = []\<rparr>
   \<and> hasService \<lparr>services = [(''zero'', Num 0)], serviceConfigs = []\<rparr> ''zero''
   \<and> registerService \<lparr>services = [(''zero'', Num 0)], serviceConfigs = []\<rparr> ''zero'' (Obj 1)
       = Inl (Error ''Service zero is already registered'')
   \<and> getService \<lparr>services = [(''zero'', Num 0)], serviceConfigs = []\<rparr> ''zero''
       = Inl (Error ''Service zero not found'')
   \<and> getService \<lparr>services = [(''flag'', Bool False)], serviceConfigs = []\<rparr> ''flag''
       = Inl (Error ''Service flag not found'')
   \<and> getService \<lparr>services = [(''name'', Str [])], serviceConfigs = []\<rparr> ''name''
       = Inl (Error ''Service name not found'')
   \<and> getService \<lparr>services = [(''ratio'', NaN)], serviceConfigs = []\<rparr> ''ratio''
       = Inl (Error ''Service ratio not found'')
   \<and> getService \<lparr>services = [(''none'', Null)], serviceConfigs = []\<rparr> ''none''
       = Inl (Error ''Service none not found'')"
  by (simp add: registerService_def TaskServiceRegistry_new_def hasService_def has_def getService_def)

section \<open>Properties of the task registry\<close>

lemma register_present:
  "hasTaskType r (tt_name ty) \<Longrightarrow>
   register r ty = Inl (Error (''Task type '' @ tt_name ty @ '' is already registered''))"
  by (simp add: register_def hasTaskType_def)

lemma register_absent:
  "\<not> hasTaskType r (tt_name ty) \<Longrightarrow>
   register r ty = Inr (r\<lparr>taskTypes := AList.update (tt_name ty) ty (taskTypes r)\<rparr>)"
  by (simp add: register_def hasTaskType_def)

lemma unregister_present:
  "hasTaskType r n \<Longrightarrow>
   unregister r n = Inr (r\<lparr>taskTypes := AList.delete n (taskTypes r),
                           taskTypeConfigs := AList.delete n (taskTypeConfigs r)\<rparr>)"
  by (simp add: unregister_def hasTaskType_def)

lemma unregister_absent:
  "\<not> hasTaskType r n \<Longrightarrow>
   unregister r n = Inl (Error (''Task type '' @ n @ '' is not registered''))"
  by (simp add: unregister_def hasTaskType_def)

text \<open>
  Claim C6. Registering a type whose name is present fails with DuplicateRegistration.
  Registering a type whose name is absent succeeds, the type is then found under its
  name, and registering any type of that name again fails. \<open>unregister\<close> of a present
  name succeeds: afterwards neither the type nor a configuration is under the name, every
  other name has the type and the configuration it had, and registering a type of the
  name succeeds again. \<open>unregister\<close> of an absent name fails with NotFound.
\<close>

theorem register_unregister_contract:
  "(hasTaskType r (tt_name ty) \<longrightarrow>
      register r ty = Inl (Error (''Task type '' @ tt_name ty @ '' is already registered'')))
   \<and> (\<not> hasTaskType r (tt_name ty) \<longrightarrow>
      (\<exists>r1. register r ty = Inr r1 \<and> getTaskType r1 (tt_name ty) = Some ty
         \<and> (\<forall>ty'. tt_name ty' = tt_name ty \<longrightarrow>
               register r1 ty' = Inl (Error (''Task type '' @ tt_name ty @ '' is already registered'')))))
   \<and> (hasTaskType r n \<longrightarrow>
      (\<exists>r2. unregister r n = Inr r2
         \<and> \<not> hasTaskType r2 n \<and> getTaskType r2 n = None \<and> getTaskTypeConfig r2 n = None
         \<and> (\<forall>n'. n' \<noteq> n \<longrightarrow> getTaskType r2 n' = getTaskType r n'
                               \<and> getTaskTypeConfig r2 n' = getTaskTypeConfig r n')
         \<and> (\<forall>ty'. tt_name ty' = n \<longrightarrow>
               (\<exists>r3. register r2 ty' = Inr r3 \<and> getTaskType r3 n = Some ty'))))
   \<and> (\<not> hasTaskType r n \<longrightarrow>
      unregister r n = Inl (Error (''Task type '' @ n @ '' is not registered'')))"
proof (intro conjI impI)
  assume "hasTaskType r (tt_name ty)"
  then show "register r ty = Inl (Error (''Task type '' @ tt_name ty @ '' is already registered''))"
    by (rule register_present)
next
  assume a: "\<not> hasTaskType r (tt_name ty)"
  let ?r1 = "r\<lparr>taskTypes := AList.update (tt_name ty) ty (taskTypes r)\<rparr>"
  have 1: "register r ty = Inr ?r1"
    using a by (rule register_absent)
  have 2: "getTaskType ?r1 (tt_name ty) = Some ty"
    by (simp add: getTaskType_def update_conv')
  have 3: "\<forall>ty'. tt_name ty' = tt_name ty \<longrightarrow>
      register ?r1 ty' = Inl (Error (''Task type '' @ tt_name ty @ '' is already registered''))"
    by (simp add: register_def)
  from 1 2 3 show "\<exists>r1. register r ty = Inr r1 \<and> getTaskType r1 (tt_name ty) = Some ty
         \<and> (\<forall>ty'. tt_name ty' = tt_name ty \<longrightarrow>
               register r1 ty' = Inl (Error (''Task type '' @ tt_name ty @ '' is already registered'')))"
    by blast
next
  assume a: "hasTaskType r n"
  let ?r2 = "r\<lparr>taskTypes := AList.delete n (taskTypes r),
               taskTypeConfigs := AList.delete n (taskTypeConfigs r)\<rparr>"
  have 1: "unregister r n = Inr ?r2"
    using a by (rule unregister_present)
  have 2: "\<not> hasTaskType ?r2 n" "getTaskType ?r2 n = None" "getTaskTypeConfig ?r2 n = None"
    by (simp_all add: hasTaskType_def getTaskType_def getTaskTypeConfig_def delete_conv')
  have 3: "\<forall>n'. n' \<noteq> n \<longrightarrow> getTaskType ?r2 n' = getTaskType r n'
                               \<and> getTaskTypeConfig ?r2 n' = getTaskTypeConfig r n'"
    by (simp add: getTaskType_def getTaskTypeConfig_def delete_conv')
  have 4: "\<forall>ty'. tt_name ty' = n \<longrightarrow>
               (\<exists>r3. register ?r2 ty' = Inr r3 \<and> getTaskType r3 n = Some ty')"
    by (simp add: register_def getTaskType_def update_conv')
  from 1 2 3 4 show "\<exists>r2. unregister r n = Inr r2
         \<and> \<not> hasTaskType r2 n \<and> getTaskType r2 n = None \<and> getTaskTypeConfig r2 n = None
         \<and> (\<forall>n'. n' \<noteq> n \<longrightarrow> getTaskType r2 n' = getTaskType r n'
                               \<and> getTaskTypeConfig r2 n' = getTaskTypeConfig r n')
         \<and> (\<forall>ty'. tt_name ty' = n \<longrightarrow>
               (\<exists>r3. register r2 ty' = Inr r3 \<and> getTaskType r3 n = Some ty'))"
    by blast
next
  assume "\<not> hasTaskType r n"
  then show "unregister r n = Inl (Error (''Task type '' @ n @ '' is not registered''))"
    by (rule unregister_absent)
qed

theorem register_unregister_contract_witness:
  "hasTaskType two_registry ''echo''
   \<and> register two_registry (simpleType ''echo'')
       = Inl (Error ''Task type echo is already registered'')
   \<and> (\<exists>r2. unregister two_registry ''echo'' = Inr r2
         \<and> \<not> hasTaskType r2 ''echo'' \<and> getTaskTypeConfig r2 ''echo'' = None
         \<and> getTaskType r2 ''build'' = Some (simpleType ''build'')
         \<and> getTaskTypeConfig r2 ''build'' = getTaskTypeConfig two_registry ''build''
         \<and> (\<exists>r3. register r2 (simpleType ''echo'') = Inr r3
                \<and> getTaskType r3 ''echo'' = Some (simpleType ''echo'')))
   \<and> getTaskTypeConfig two_registry ''echo'' \<noteq> None
   \<and> \<not> hasTaskType two_registry ''test''
   \<and> unregister two_registry ''test'' = Inl (Error ''Task type test is not registered'')
   \<and> (\<exists>r1. register two_registry (simpleType ''test'') = Inr r1
         \<and> getTaskType r1 ''test'' = Some (simpleType ''test'')
         \<and> register r1 (simpleType ''test'') = Inl (Error ''Task type test is already registered''))"
proof -
  let ?echo = "simpleType ''echo''"
  let ?test = "simpleType ''test''"
  have ne: "tt_name ?echo = ''echo''" and nt: "tt_name ?test = ''test''"
    by (simp_all add: simpleType_def)
  have h: "hasTaskType two_registry ''echo''"
    by (simp add: hasTaskType_def two_registry_def has_def)
  have nh: "\<not> hasTaskType two_registry ''test''"
    by (simp add: hasTaskType_def two_registry_def has_def)
  have b: "getTaskType two_registry ''build'' = Some (simpleType ''build'')"
    by (simp add: getTaskType_def two_registry_def)
  have c: "getTaskTypeConfig two_registry ''echo'' \<noteq> None"
    by (simp add: getTaskTypeConfig_def two_registry_def)
  have d: "''build'' \<noteq> ''echo''"
    by simp
  note on_echo = register_unregister_contract [of two_registry ?echo "''echo''", unfolded ne]
  note on_test = register_unregister_contract [of two_registry ?test "''test''", unfolded nt]
  have q1: "register two_registry ?echo = Inl (Error (''Task type '' @ ''echo'' @ '' is already registered''))"
    using on_echo h by blast
  obtain r2 where u: "unregister two_registry ''echo'' = Inr r2"
    and u1: "\<not> hasTaskType r2 ''echo''" and u2: "getTaskTypeConfig r2 ''echo'' = None"
    and u3: "\<forall>n'. n' \<noteq> ''echo'' \<longrightarrow> getTaskType r2 n' = getTaskType two_registry n'
                               \<and> getTaskTypeConfig r2 n' = getTaskTypeConfig two_registry n'"
    and u4: "\<forall>ty'. tt_name ty' = ''echo'' \<longrightarrow>
               (\<exists>r3. register r2 ty' = Inr r3 \<and> getTaskType r3 ''echo'' = Some ty')"
    using on_echo h by blast
  have u5: "getTaskType r2 ''build'' = Some (simpleType ''build'')"
    using u3 d b by simp
  have u6: "getTaskTypeConfig r2 ''build'' = getTaskTypeConfig two_registry ''build''"
    using u3 d by simp
  have u7: "\<exists>r3. register r2 ?echo = Inr r3 \<and> getTaskType r3 ''echo'' = Some ?echo"
    using u4 ne by blast
  have q2: "\<exists>r2. unregister two_registry ''echo'' = Inr r2
         \<and> \<not> hasTaskType r2 ''echo'' \<and> getTaskTypeConfig r2 ''echo'' = None
         \<and> getTaskType r2 ''build'' = Some (simpleType ''build'')
         \<and> getTaskTypeConfig r2 ''build'' = getTaskTypeConfig two_registry ''build''
         \<and> (\<exists>r3. register r2 ?echo = Inr r3 \<and> getTaskType r3 ''echo'' = Some ?echo)"
    using u u1 u2 u5 u6 u7 by blast
  have q3: "unregister two_registry ''test'' = Inl (Error (''Task type '' @ ''test'' @ '' is not registered''))"
    using on_test nh by blast
  obtain r1 where g: "register two_registry ?test = Inr r1"
    and g1: "getTaskType r1 ''test'' = Some ?test"
    and g2: "\<forall>ty'. tt_name ty' = ''test'' \<longrightarrow>
               register r1 ty' = Inl (Error (''Task type '' @ ''test'' @ '' is already registered''))"
    using on_test nh by blast
  have g3: "register r1 ?test = Inl (Error (''Task type '' @ ''test'' @ '' is already registered''))"
    using g2 nt by blast
  have q4: "\<exists>r1. register two_registry ?test = Inr r1
         \<and> getTaskType r1 ''test'' = Some ?test
         \<and> register r1 ?test = Inl (Error (''Task type '' @ ''test'' @ '' is already registered''))"
    using g g1 g3 by blast
  note q1' = q1 [simplified append.simps]
  note q3' = q3 [simplified append.simps]
  note q4' = q4 [simplified append.simps]
  from h q1' q2 c nh q3' q4' show ?thesis
    by (intro conjI)
qed

section \<open>Properties of the task factory\<close>




lemma createTask_registry:
  "createTask f T i inp = Inr (t, f') \<Longrightarrow> f_registry f' = f_registry f"
  by (auto simp add: createTask_def Let_def split: option.splits)

lemma createTask_registered:
  "getTaskType (f_registry f) T = Some ty \<Longrightarrow> \<exists>t f'. createTask f T i inp = Inr (t, f')"
  by (auto simp add: createTask_def Let_def split: option.splits)








text \<open>
  Claim C10. \<open>build()\<close> after \<open>withId("")\<close> fails with the message
  \<open>Task ID is required\<close>, as it does when no id was set; and \<open>build()\<close> fails with that
  message exactly when the id is unset or the empty string, the falsy values of a string.
\<close>

theorem build_rejects_falsy_id:
  "build f (withId (createTaskBuilder T) []) = Inl (Error ''Task ID is required'')
   \<and> build f (createTaskBuilder T) = Inl (Error ''Task ID is required'')
   \<and> (build f b = Inl (Error ''Task ID is required'') \<longleftrightarrow> b_id b = None \<or> b_id b = Some [])"
  by (auto simp add: build_def withId_def createTaskBuilder_def createTask_def Let_def
        split: option.splits)

section \<open>Properties of the plugin manager\<close>

lemma register_Inl:
  "register r ty = Inl e \<Longrightarrow>
   hasTaskType r (tt_name ty) \<and> e = Error (''Task type '' @ tt_name ty @ '' is already registered'')"
  by (auto simp add: register_def hasTaskType_def split: if_splits)

lemma register_Inr:
  "register r ty = Inr r' \<Longrightarrow>
   \<not> hasTaskType r (tt_name ty) \<and> getTaskType r' (tt_name ty) = Some ty
   \<and> (\<forall>n. n \<noteq> tt_name ty \<longrightarrow> getTaskType r' n = getTaskType r n)
   \<and> taskTypeConfigs r' = taskTypeConfigs r"
  by (auto simp add: register_def hasTaskType_def getTaskType_def update_conv' split: if_splits)

lemma register_all_preserves:
  "register_all r ts = (x, r') \<Longrightarrow> getTaskType r n = Some t \<Longrightarrow> getTaskType r' n = Some t"
proof (induction ts arbitrary: r)
  case Nil
  then show ?case by simp
next
  case (Cons ty ts)
  show ?case
  proof (cases "register r ty")
    case (Inl e)
    with Cons.prems show ?thesis by simp
  next
    case (Inr r1)
    have "n \<noteq> tt_name ty"
      using register_Inr [OF Inr] Cons.prems(2) by (auto simp add: hasTaskType_def has_def getTaskType_def)
    then have "getTaskType r1 n = Some t"
      using register_Inr [OF Inr] Cons.prems(2) by simp
    moreover have "register_all r1 ts = (x, r')"
      using Cons.prems(1) Inr by simp
    ultimately show ?thesis by (rule Cons.IH [rotated])
  qed
qed

lemma register_all_registered:
  "register_all r ts = (None, r') \<Longrightarrow> t \<in> set ts \<Longrightarrow> getTaskType r' (tt_name t) = Some t"
proof (induction ts arbitrary: r)
  case Nil
  then show ?case by simp
next
  case (Cons ty ts)
  obtain r1 where r1: "register r ty = Inr r1" and rest: "register_all r1 ts = (None, r')"
    using Cons.prems(1) by (auto split: sum.splits)
  show ?case
  proof (cases "t = ty")
    case True
    then show ?thesis
      using register_all_preserves [OF rest] register_Inr [OF r1] by simp
  next
    case False
    then show ?thesis using Cons.IH [OF rest] Cons.prems(2) by simp
  qed
qed

lemma register_all_fails:
  "register_all r ts = (Some e, r') \<Longrightarrow>
   \<exists>pre ty post. ts = pre @ ty # post \<and> register_all r pre = (None, r')
     \<and> hasTaskType r' (tt_name ty)
     \<and> e = Error (''Task type '' @ tt_name ty @ '' is already registered'')"
proof (induction ts arbitrary: r)
  case Nil
  then show ?case by simp
next
  case (Cons ty ts)
  show ?case
  proof (cases "register r ty")
    case (Inl e')
    then have "r' = r" "e = e'" using Cons.prems by simp_all
    then have "ty # ts = [] @ ty # ts \<and> register_all r [] = (None, r')
        \<and> hasTaskType r' (tt_name ty)
        \<and> e = Error (''Task type '' @ tt_name ty @ '' is already registered'')"
      using register_Inl [OF Inl] by simp
    then show ?thesis by blast
  next
    case (Inr r1)
    then have "register_all r1 ts = (Some e, r')" using Cons.prems by simp
    from Cons.IH [OF this] obtain pre ty' post where
      "ts = pre @ ty' # post" "register_all r1 pre = (None, r')"
      "hasTaskType r' (tt_name ty')"
      "e = Error (''Task type '' @ tt_name ty' @ '' is already registered'')"
      by blast
    then have "ty # ts = (ty # pre) @ ty' # post \<and> register_all r (ty # pre) = (None, r')
        \<and> hasTaskType r' (tt_name ty')
        \<and> e = Error (''Task type '' @ tt_name ty' @ '' is already registered'')"
      using Inr by simp
    then show ?thesis by blast
  qed
qed

lemma after_initialize_same:
  "after_initialize pm plugin (loadPlugin_context pm plugin) = pm"
proof (cases "map_of (pluginConfigs pm) (plugin_name plugin)")
  case None
  then show ?thesis
    by (simp add: after_initialize_def loadPlugin_context_def has_def)
next
  case (Some c)
  then show ?thesis
    by (simp add: after_initialize_def loadPlugin_context_def has_def update_triv)
qed

lemma after_initialize_plugins:
  "plugins (after_initialize pm plugin context') = plugins pm"
  by (simp add: after_initialize_def)

lemma after_initialize_registry:
  "pm_registry (after_initialize pm plugin context') = pctx_registry context'"
  by (simp add: after_initialize_def)

lemma loadPlugin_not_plugin:
  assumes "\<forall>plugin. import pluginPath \<noteq> Plugin plugin"
  shows "snd (loadPlugin import pm pluginPath) = pm"
    and "\<exists>cause. fst (loadPlugin import pm pluginPath) = Inl (load_error pluginPath cause)"
proof -
  show "snd (loadPlugin import pm pluginPath) = pm"
    using assms by (cases "import pluginPath") (simp_all add: loadPlugin_def del: load_error.simps)
  show "\<exists>cause. fst (loadPlugin import pm pluginPath) = Inl (load_error pluginPath cause)"
  proof (cases "import pluginPath")
    case (ImportThrows e)
    then have "fst (loadPlugin import pm pluginPath) = Inl (load_error pluginPath e)"
      by (simp add: loadPlugin_def del: load_error.simps)
    then show ?thesis ..
  next
    case NoPluginClass
    then have "fst (loadPlugin import pm pluginPath)
        = Inl (load_error pluginPath (Error (''No plugin class found in '' @ pluginPath)))"
      by (simp add: loadPlugin_def del: load_error.simps)
    then show ?thesis ..
  next
    case (ConstructorThrows e)
    then have "fst (loadPlugin import pm pluginPath) = Inl (load_error pluginPath e)"
      by (simp add: loadPlugin_def del: load_error.simps)
    then show ?thesis ..
  next
    case InvalidStructure
    then have "fst (loadPlugin import pm pluginPath)
        = Inl (load_error pluginPath (Error (''Invalid plugin structure in '' @ pluginPath)))"
      by (simp add: loadPlugin_def del: load_error.simps)
    then show ?thesis ..
  next
    case (Plugin plugin)
    with assms show ?thesis by simp
  qed
qed

lemma loadPlugin_duplicate:
  assumes "import pluginPath = Plugin plugin" and "has (plugins pm) (plugin_name plugin)"
  shows "loadPlugin import pm pluginPath =
     (Inl (load_error pluginPath (Error (''Plugin '' @ plugin_name plugin @ '' is already loaded''))), pm)"
  using assms by (simp add: loadPlugin_def del: load_error.simps)

lemma loadPlugin_initialize_rejects:
  assumes "import pluginPath = Plugin plugin" and "\<not> has (plugins pm) (plugin_name plugin)"
    and "initialize plugin (loadPlugin_context pm plugin) = (Some e0, context')"
  shows "loadPlugin import pm pluginPath =
     (Inl (load_error pluginPath e0), after_initialize pm plugin context')"
  using assms by (simp add: loadPlugin_def del: load_error.simps)

lemma loadPlugin_initialize_resolves:
  assumes "import pluginPath = Plugin plugin" and "\<not> has (plugins pm) (plugin_name plugin)"
    and "initialize plugin (loadPlugin_context pm plugin) = (None, context')"
  shows "loadPlugin import pm pluginPath =
     (case register_all (pctx_registry context') (getTaskTypes plugin) of
        (Some e, r') \<Rightarrow>
          (Inl (load_error pluginPath e), (after_initialize pm plugin context')\<lparr>pm_registry := r'\<rparr>)
      | (None, r') \<Rightarrow>
          (Inr (), (after_initialize pm plugin context')
                     \<lparr>pm_registry := r',
                      plugins := AList.update (plugin_name plugin) plugin
                                   (plugins (after_initialize pm plugin context'))\<rparr>))"
  using assms
  by (simp add: loadPlugin_def Let_def after_initialize_registry del: load_error.simps)

lemma host_manager_load_ab:
  "loadPlugin modules host_manager ''/plugins/ab.js''
     = (Inl (Error ''Failed to load plugin from /plugins/ab.js: Task type B is already registered''),
        host_manager\<lparr>pm_registry :=
          \<lparr>taskTypes = [(''B'', simpleType ''B''), (''A'', simpleType ''A'')],
           taskTypeConfigs = []\<rparr>\<rparr>)"
  by (simp add: loadPlugin_def modules_def host_manager_def PluginManagerImpl_new_def
        loadPlugin_context_def after_initialize_def
        simplePlugin_def simpleType_def register_def has_def hasTaskType_def)

lemma boom_manager_eq:
  "boom_manager =
     \<lparr>plugins = [(''boom'', simplePlugin ''boom'' [''X''] (Some (Error ''boom'')))],
      pluginConfigs = [(''boom'', \<lparr>pc_enabled = True, pc_priority = 7, pc_settings = []\<rparr>)],
      pm_registry = \<lparr>taskTypes = [(''X'', simpleType ''X'')], taskTypeConfigs = []\<rparr>,
      pm_services = TaskServiceRegistry_new\<rparr>"
  by (simp add: boom_manager_def loadPlugin_def modules_def registerPluginConfig_def
        loadPlugin_context_def after_initialize_def
        PluginManagerImpl_new_def TaskRegistryImpl_new_def simplePlugin_def simpleType_def
        register_def has_def)

lemma host_manager_load_none:
  "loadPlugin modules host_manager ''/plugins/none.js''
     = (Inl (Error ''Failed to load plugin from /plugins/none.js: Cannot find module /plugins/none.js''),
        host_manager)"
  by (simp add: loadPlugin_def modules_def)

lemma host_manager_load_bad:
  "loadPlugin modules host_manager ''/plugins/bad.js''
     = (Inl (Error ''Failed to load plugin from /plugins/bad.js: init failed''), host_manager)"
  by (simp add: loadPlugin_def modules_def simplePlugin_def host_manager_def
        loadPlugin_context_def after_initialize_def PluginManagerImpl_new_def has_def)

lemma host_manager_load_worse:
  "loadPlugin modules host_manager ''/plugins/worse.js''
     = (Inl (Error ''Failed to load plugin from /plugins/worse.js: init failed''),
        host_manager\<lparr>pm_registry :=
          \<lparr>taskTypes = [(''B'', simpleType ''B''), (''Y'', simpleType ''Y'')],
           taskTypeConfigs = []\<rparr>\<rparr>)"
  by (simp add: loadPlugin_def modules_def simplePlugin_def host_manager_def
        loadPlugin_context_def after_initialize_def PluginManagerImpl_new_def has_def
        register_then_reject_def register_def simpleType_def)

lemma boom_manager_load_boom:
  "loadPlugin modules boom_manager ''/plugins/boom.js''
     = (Inl (Error ''Failed to load plugin from /plugins/boom.js: Plugin boom is already loaded''),
        boom_manager)"
  by (simp add: loadPlugin_def modules_def simplePlugin_def boom_manager_eq has_def)

text \<open>
  Claim C5, as stated, fails. The plugin \<open>ab\<close> contributes the types A and B, its
  \<open>initialize\<close> writes nothing, and the registry already holds a type B.
  \<open>loadPlugin\<close> registers A, fails on B with a LoadError, and A stays in the registry.
\<close>

theorem loadPlugin_partial_counterexample:
  "fst (loadPlugin modules host_manager ''/plugins/ab.js'')
     = Inl (Error ''Failed to load plugin from /plugins/ab.js: Task type B is already registered'')
   \<and> \<not> hasTaskType (pm_registry host_manager) ''A''
   \<and> modules ''/plugins/ab.js'' = Plugin (simplePlugin ''ab'' [''A'', ''B''] None)
   \<and> map tt_name (getTaskTypes (simplePlugin ''ab'' [''A'', ''B''] None)) = [''A'', ''B'']
   \<and> hasTaskType (pm_registry (snd (loadPlugin modules host_manager ''/plugins/ab.js''))) ''A''"
  by (simp add: host_manager_load_ab)
     (simp add: modules_def host_manager_def PluginManagerImpl_new_def
        simplePlugin_def simpleType_def has_def hasTaskType_def)

text \<open>
  Claim C5, amended. A failing \<open>loadPlugin\<close> surfaces a LoadError, the message being
  the path and the cause, and does not record the plugin: the loaded plugins are as they
  were. When the path gives no plugin or the plugin's name is already loaded, the manager
  with its registry, services and configurations is unchanged. When \<open>initialize\<close>
  rejects, the error is its error wrapped, and the manager writes nothing itself: the
  registry, the services and the plugin's configuration are as \<open>initialize\<close> left
  them, which is unchanged when it wrote nothing. When \<open>initialize\<close> resolves and the
  call fails, a registration failed midway and nothing is rolled back: on top of what
  \<open>initialize\<close> left, the plugin's types that precede the colliding one have been
  registered and remain registered, the colliding name being held by another type.
\<close>

theorem loadPlugin_failure:
  assumes fails: "loadPlugin import pm pluginPath = (Inl e, pm')"
  shows "(\<exists>cause. e = load_error pluginPath cause)
     \<and> plugins pm' = plugins pm
     \<and> getLoadedPlugins pm' = getLoadedPlugins pm
     \<and> ((\<forall>plugin. import pluginPath \<noteq> Plugin plugin) \<longrightarrow> pm' = pm)
     \<and> (\<forall>plugin. import pluginPath = Plugin plugin \<and> has (plugins pm) (plugin_name plugin)
            \<longrightarrow> pm' = pm)
     \<and> (\<forall>plugin e0 context'.
            import pluginPath = Plugin plugin \<and> \<not> has (plugins pm) (plugin_name plugin)
            \<and> initialize plugin (loadPlugin_context pm plugin) = (Some e0, context')
            \<longrightarrow> e = load_error pluginPath e0 \<and> pm' = after_initialize pm plugin context')
     \<and> (\<forall>plugin context'.
            import pluginPath = Plugin plugin \<and> \<not> has (plugins pm) (plugin_name plugin)
            \<and> initialize plugin (loadPlugin_context pm plugin) = (None, context')
            \<longrightarrow> (\<exists>pre ty post.
                   getTaskTypes plugin = pre @ ty # post
                   \<and> register_all (pctx_registry context') pre = (None, pm_registry pm')
                   \<and> pm' = (after_initialize pm plugin context')\<lparr>pm_registry := pm_registry pm'\<rparr>
                   \<and> (\<forall>t \<in> set pre. getTaskType (pm_registry pm') (tt_name t) = Some t)
                   \<and> (\<forall>n t. getTaskType (pctx_registry context') n = Some t
                          \<longrightarrow> getTaskType (pm_registry pm') n = Some t)
                   \<and> hasTaskType (pm_registry pm') (tt_name ty)
                   \<and> e = load_error pluginPath
                            (Error (''Task type '' @ tt_name ty @ '' is already registered''))))
     \<and> (\<forall>plugin. after_initialize pm plugin (loadPlugin_context pm plugin) = pm)"
proof -
  have not_plugin: "(\<forall>plugin. import pluginPath \<noteq> Plugin plugin) \<longrightarrow> pm' = pm"
    using loadPlugin_not_plugin(1) [of "import" pluginPath pm] fails by simp
  have duplicate: "\<forall>plugin. import pluginPath = Plugin plugin
      \<and> has (plugins pm) (plugin_name plugin) \<longrightarrow> pm' = pm"
  proof (intro allI impI)
    fix plugin
    assume a: "import pluginPath = Plugin plugin \<and> has (plugins pm) (plugin_name plugin)"
    have "snd (loadPlugin import pm pluginPath) = pm"
      by (simp only: loadPlugin_duplicate [of "import" pluginPath plugin pm,
            OF a [THEN conjunct1] a [THEN conjunct2]] snd_conv)
    then show "pm' = pm"
      unfolding fails snd_conv .
  qed
  have rejects: "\<forall>plugin e0 context'.
            import pluginPath = Plugin plugin \<and> \<not> has (plugins pm) (plugin_name plugin)
            \<and> initialize plugin (loadPlugin_context pm plugin) = (Some e0, context')
            \<longrightarrow> e = load_error pluginPath e0 \<and> pm' = after_initialize pm plugin context'"
  proof (intro allI impI)
    fix plugin e0 context'
    assume a: "import pluginPath = Plugin plugin \<and> \<not> has (plugins pm) (plugin_name plugin)
            \<and> initialize plugin (loadPlugin_context pm plugin) = (Some e0, context')"
    have "loadPlugin import pm pluginPath =
        (Inl (load_error pluginPath e0), after_initialize pm plugin context')"
      using a by (intro loadPlugin_initialize_rejects [of "import" pluginPath plugin pm]) simp_all
    then have "((Inl e, pm') :: (error + unit) \<times> PluginManagerImpl) = (Inl (load_error pluginPath e0), after_initialize pm plugin context')"
      unfolding fails .
    then show "e = load_error pluginPath e0 \<and> pm' = after_initialize pm plugin context'"
      by simp
  qed
  have midway: "\<forall>plugin context'.
            import pluginPath = Plugin plugin \<and> \<not> has (plugins pm) (plugin_name plugin)
            \<and> initialize plugin (loadPlugin_context pm plugin) = (None, context')
            \<longrightarrow> (\<exists>pre ty post.
                   getTaskTypes plugin = pre @ ty # post
                   \<and> register_all (pctx_registry context') pre = (None, pm_registry pm')
                   \<and> pm' = (after_initialize pm plugin context')\<lparr>pm_registry := pm_registry pm'\<rparr>
                   \<and> (\<forall>t \<in> set pre. getTaskType (pm_registry pm') (tt_name t) = Some t)
                   \<and> (\<forall>n t. getTaskType (pctx_registry context') n = Some t
                          \<longrightarrow> getTaskType (pm_registry pm') n = Some t)
                   \<and> hasTaskType (pm_registry pm') (tt_name ty)
                   \<and> e = load_error pluginPath
                            (Error (''Task type '' @ tt_name ty @ '' is already registered'')))"
  proof (intro allI impI)
    fix plugin context'
    assume a: "import pluginPath = Plugin plugin \<and> \<not> has (plugins pm) (plugin_name plugin)
            \<and> initialize plugin (loadPlugin_context pm plugin) = (None, context')"
    let ?pm1 = "after_initialize pm plugin context'"
    obtain x r' where r: "register_all (pctx_registry context') (getTaskTypes plugin) = (x, r')"
      by (cases "register_all (pctx_registry context') (getTaskTypes plugin)") blast
    have l: "loadPlugin import pm pluginPath =
       (case (x, r') of
          (Some e, r') \<Rightarrow> (Inl (load_error pluginPath e), ?pm1\<lparr>pm_registry := r'\<rparr>)
        | (None, r') \<Rightarrow>
            (Inr (), ?pm1\<lparr>pm_registry := r',
                          plugins := AList.update (plugin_name plugin) plugin (plugins ?pm1)\<rparr>))"
    proof -
      have "loadPlugin import pm pluginPath =
       (case register_all (pctx_registry context') (getTaskTypes plugin) of
          (Some e, r') \<Rightarrow> (Inl (load_error pluginPath e), ?pm1\<lparr>pm_registry := r'\<rparr>)
        | (None, r') \<Rightarrow>
            (Inr (), ?pm1\<lparr>pm_registry := r',
                          plugins := AList.update (plugin_name plugin) plugin (plugins ?pm1)\<rparr>))"
        using a by (intro loadPlugin_initialize_resolves [of "import" pluginPath plugin pm]) simp_all
      then show ?thesis by (simp only: r)
    qed
    have "\<exists>e'. x = Some e' \<and> e = load_error pluginPath e' \<and> pm' = ?pm1\<lparr>pm_registry := r'\<rparr>"
    proof (cases x)
      case None
      with l fails show ?thesis by simp
    next
      case (Some e')
      with l fails have "((Inl e, pm') :: (error + unit) \<times> PluginManagerImpl) = (Inl (load_error pluginPath e'), ?pm1\<lparr>pm_registry := r'\<rparr>)"
        by (simp del: load_error.simps)
      then have "e = load_error pluginPath e' \<and> pm' = ?pm1\<lparr>pm_registry := r'\<rparr>"
        by simp
      with Some show ?thesis by (intro exI conjI) simp_all
    qed
    then obtain e' where x: "x = Some e'" and e: "e = load_error pluginPath e'"
      and pm': "pm' = ?pm1\<lparr>pm_registry := r'\<rparr>"
      by blast
    have reg: "pm_registry pm' = r'"
      by (simp add: pm')
    from register_all_fails [OF r [unfolded x]] obtain pre ty post where
      s: "getTaskTypes plugin = pre @ ty # post"
      and q: "register_all (pctx_registry context') pre = (None, r')"
      and h: "hasTaskType r' (tt_name ty)"
      and e': "e' = Error (''Task type '' @ tt_name ty @ '' is already registered'')"
      by blast
    have p: "\<forall>t \<in> set pre. getTaskType (pm_registry pm') (tt_name t) = Some t"
      unfolding reg by (intro ballI) (rule register_all_registered [OF q])
    have k: "\<forall>n t. getTaskType (pctx_registry context') n = Some t
        \<longrightarrow> getTaskType (pm_registry pm') n = Some t"
      unfolding reg by (intro allI impI) (rule register_all_preserves [OF q])
    have pm'': "pm' = ?pm1\<lparr>pm_registry := pm_registry pm'\<rparr>"
      by (simp add: pm')
    have q': "register_all (pctx_registry context') pre = (None, pm_registry pm')"
      by (simp only: reg q)
    have h': "hasTaskType (pm_registry pm') (tt_name ty)"
      by (simp only: reg h)
    have e'': "e = load_error pluginPath
                     (Error (''Task type '' @ tt_name ty @ '' is already registered''))"
      by (simp only: e e')
    show "\<exists>pre ty post.
                   getTaskTypes plugin = pre @ ty # post
                   \<and> register_all (pctx_registry context') pre = (None, pm_registry pm')
                   \<and> pm' = (after_initialize pm plugin context')\<lparr>pm_registry := pm_registry pm'\<rparr>
                   \<and> (\<forall>t \<in> set pre. getTaskType (pm_registry pm') (tt_name t) = Some t)
                   \<and> (\<forall>n t. getTaskType (pctx_registry context') n = Some t
                          \<longrightarrow> getTaskType (pm_registry pm') n = Some t)
                   \<and> hasTaskType (pm_registry pm') (tt_name ty)
                   \<and> e = load_error pluginPath
                            (Error (''Task type '' @ tt_name ty @ '' is already registered''))"
    proof (intro exI conjI)
      show "getTaskTypes plugin = pre @ ty # post" by (rule s)
      show "register_all (pctx_registry context') pre = (None, pm_registry pm')" by (rule q')
      show "pm' = (after_initialize pm plugin context')\<lparr>pm_registry := pm_registry pm'\<rparr>"
        by (rule pm'')
      show "\<forall>t \<in> set pre. getTaskType (pm_registry pm') (tt_name t) = Some t" by (rule p)
      show "\<forall>n t. getTaskType (pctx_registry context') n = Some t
                          \<longrightarrow> getTaskType (pm_registry pm') n = Some t" by (rule k)
      show "hasTaskType (pm_registry pm') (tt_name ty)" by (rule h')
      show "e = load_error pluginPath
                            (Error (''Task type '' @ tt_name ty @ '' is already registered''))"
        by (rule e'')
    qed
  qed
  have same: "\<forall>plugin. after_initialize pm plugin (loadPlugin_context pm plugin) = pm"
    by (simp add: after_initialize_same)
  have shape: "pm' = pm \<or> (\<exists>plugin context' r'. pm' = (after_initialize pm plugin context')\<lparr>pm_registry := r'\<rparr>)"
    and cause: "\<exists>cause. e = load_error pluginPath cause"
  proof -
    show "pm' = pm \<or> (\<exists>plugin context' r'. pm' = (after_initialize pm plugin context')\<lparr>pm_registry := r'\<rparr>)"
    proof (cases "\<exists>plugin. import pluginPath = Plugin plugin")
      case False
      with not_plugin show ?thesis by simp
    next
      case True
      then obtain plugin where P: "import pluginPath = Plugin plugin" ..
      show ?thesis
      proof (cases "has (plugins pm) (plugin_name plugin)")
        case True
        with duplicate P show ?thesis by simp
      next
        case False
        obtain o' context' where i: "initialize plugin (loadPlugin_context pm plugin) = (o', context')"
          by (cases "initialize plugin (loadPlugin_context pm plugin)") blast
        show ?thesis
        proof (cases o')
          case None
          have i': "initialize plugin (loadPlugin_context pm plugin) = (None, context')"
            using i None by simp
          from midway [rule_format, OF conjI [OF P conjI [OF False i']]]
          have "pm' = (after_initialize pm plugin context')\<lparr>pm_registry := pm_registry pm'\<rparr>"
            by blast
          then show ?thesis by (intro disjI2 exI)
        next
          case (Some e0)
          have i': "initialize plugin (loadPlugin_context pm plugin) = (Some e0, context')"
            using i Some by simp
          from rejects [rule_format, OF conjI [OF P conjI [OF False i']]]
          have "pm' = after_initialize pm plugin context'" by blast
          then have "pm' = (after_initialize pm plugin context')\<lparr>pm_registry := pm_registry pm'\<rparr>"
            by simp
          then show ?thesis by (intro disjI2 exI)
        qed
      qed
    qed
  next
    show "\<exists>cause. e = load_error pluginPath cause"
    proof (cases "\<exists>plugin. import pluginPath = Plugin plugin")
      case False
      then have "\<forall>plugin. import pluginPath \<noteq> Plugin plugin" by simp
      from loadPlugin_not_plugin(2) [of "import" pluginPath pm, OF this] obtain cause where
        "fst (loadPlugin import pm pluginPath) = Inl (load_error pluginPath cause)" ..
      then have "Inl e = (Inl (load_error pluginPath cause) :: error + unit)"
        unfolding fails fst_conv .
      then have "e = load_error pluginPath cause" by simp
      then show ?thesis ..
    next
      case True
      then obtain plugin where P: "import pluginPath = Plugin plugin" ..
      show ?thesis
      proof (cases "has (plugins pm) (plugin_name plugin)")
        case True
        have "loadPlugin import pm pluginPath =
           (Inl (load_error pluginPath
                   (Error (''Plugin '' @ plugin_name plugin @ '' is already loaded''))), pm)"
          by (rule loadPlugin_duplicate [of "import" pluginPath plugin pm, OF P True])
        then have "((Inl e, pm') :: (error + unit) \<times> PluginManagerImpl) = (Inl (load_error pluginPath
                   (Error (''Plugin '' @ plugin_name plugin @ '' is already loaded''))), pm)"
          unfolding fails .
        then have "e = load_error pluginPath
                   (Error (''Plugin '' @ plugin_name plugin @ '' is already loaded''))"
          by simp
        then show ?thesis ..
      next
        case False
        obtain o' context' where i: "initialize plugin (loadPlugin_context pm plugin) = (o', context')"
          by (cases "initialize plugin (loadPlugin_context pm plugin)") blast
        show ?thesis
        proof (cases o')
          case None
          have i': "initialize plugin (loadPlugin_context pm plugin) = (None, context')"
            using i None by simp
          from midway [rule_format, OF conjI [OF P conjI [OF False i']]]
          show ?thesis by blast
        next
          case (Some e0)
          have i': "initialize plugin (loadPlugin_context pm plugin) = (Some e0, context')"
            using i Some by simp
          from rejects [rule_format, OF conjI [OF P conjI [OF False i']]]
          show ?thesis by blast
        qed
      qed
    qed
  qed
  have plug: "plugins pm' = plugins pm"
    using shape by (elim disjE exE) (simp_all add: after_initialize_plugins)
  have loaded: "getLoadedPlugins pm' = getLoadedPlugins pm"
    by (simp only: getLoadedPlugins_def plug)
  from cause plug loaded not_plugin duplicate rejects midway same show ?thesis
    by (intro conjI)
qed

theorem loadPlugin_failure_witness:
  "loadPlugin modules host_manager ''/plugins/none.js''
     = (Inl (Error ''Failed to load plugin from /plugins/none.js: Cannot find module /plugins/none.js''),
        host_manager)
   \<and> (\<forall>plugin. modules ''/plugins/none.js'' \<noteq> Plugin plugin)
   \<and> loadPlugin modules boom_manager ''/plugins/boom.js''
     = (Inl (Error ''Failed to load plugin from /plugins/boom.js: Plugin boom is already loaded''),
        boom_manager)
   \<and> getLoadedPlugins boom_manager = [''boom'']
   \<and> loadPlugin modules host_manager ''/plugins/bad.js''
     = (Inl (Error ''Failed to load plugin from /plugins/bad.js: init failed''), host_manager)
   \<and> loadPlugin modules host_manager ''/plugins/worse.js''
     = (Inl (Error ''Failed to load plugin from /plugins/worse.js: init failed''),
        after_initialize host_manager
          ((simplePlugin ''worse'' [''Y''] None)\<lparr>initialize := register_then_reject\<rparr>)
          (snd (register_then_reject
                  (loadPlugin_context host_manager
                     ((simplePlugin ''worse'' [''Y''] None)\<lparr>initialize := register_then_reject\<rparr>)))))
   \<and> hasTaskType (pm_registry (snd (loadPlugin modules host_manager ''/plugins/worse.js''))) ''Y''
   \<and> \<not> hasTaskType (pm_registry host_manager) ''Y''
   \<and> loadPlugin modules host_manager ''/plugins/ab.js''
     = (Inl (Error ''Failed to load plugin from /plugins/ab.js: Task type B is already registered''),
        host_manager\<lparr>pm_registry :=
          \<lparr>taskTypes = [(''B'', simpleType ''B''), (''A'', simpleType ''A'')],
           taskTypeConfigs = []\<rparr>\<rparr>)
   \<and> getLoadedPlugins (host_manager\<lparr>pm_registry :=
          \<lparr>taskTypes = [(''B'', simpleType ''B''), (''A'', simpleType ''A'')],
           taskTypeConfigs = []\<rparr>\<rparr>) = []
   \<and> (\<exists>pre ty post.
          getTaskTypes (simplePlugin ''ab'' [''A'', ''B''] None) = pre @ ty # post
          \<and> register_all (pm_registry host_manager) pre
              = (None, \<lparr>taskTypes = [(''B'', simpleType ''B''), (''A'', simpleType ''A'')],
                        taskTypeConfigs = []\<rparr>)
          \<and> (\<forall>t \<in> set pre. getTaskType
                 \<lparr>taskTypes = [(''B'', simpleType ''B''), (''A'', simpleType ''A'')],
                  taskTypeConfigs = []\<rparr> (tt_name t) = Some t))"
proof -
  let ?ab = "simplePlugin ''ab'' [''A'', ''B''] None"
  let ?worse = "(simplePlugin ''worse'' [''Y''] None)\<lparr>initialize := register_then_reject\<rparr>"
  let ?pm' = "host_manager\<lparr>pm_registry :=
          \<lparr>taskTypes = [(''B'', simpleType ''B''), (''A'', simpleType ''A'')],
           taskTypeConfigs = []\<rparr>\<rparr>"
  have np: "\<forall>plugin. modules ''/plugins/none.js'' \<noteq> Plugin plugin"
    by (simp add: modules_def)
  have l: "getLoadedPlugins ?pm' = []"
    by (simp add: host_manager_def PluginManagerImpl_new_def getLoadedPlugins_def)
  have lb: "getLoadedPlugins boom_manager = [''boom'']"
    by (simp add: boom_manager_eq getLoadedPlugins_def)
  have ny: "\<not> hasTaskType (pm_registry host_manager) ''Y''"
    by (simp add: host_manager_def PluginManagerImpl_new_def hasTaskType_def has_def)
  have y: "hasTaskType (pm_registry (snd (loadPlugin modules host_manager ''/plugins/worse.js''))) ''Y''"
    by (simp add: host_manager_load_worse hasTaskType_def has_def)
  have ab: "modules ''/plugins/ab.js'' = Plugin ?ab"
    by (simp add: modules_def)
  have nab: "\<not> has (plugins host_manager) (plugin_name ?ab)"
    by (simp add: host_manager_def PluginManagerImpl_new_def has_def)
  have iab: "initialize ?ab (loadPlugin_context host_manager ?ab)
      = (None, loadPlugin_context host_manager ?ab)"
    by (simp add: simplePlugin_def)
  have cab: "pctx_registry (loadPlugin_context host_manager ?ab) = pm_registry host_manager"
    by (simp add: loadPlugin_context_def)
  have w: "modules ''/plugins/worse.js'' = Plugin ?worse"
    by (simp add: modules_def)
  have nw: "\<not> has (plugins host_manager) (plugin_name ?worse)"
    by (simp add: host_manager_def PluginManagerImpl_new_def has_def)
  have iw: "initialize ?worse (loadPlugin_context host_manager ?worse)
      = (Some (Error ''init failed''),
         snd (register_then_reject (loadPlugin_context host_manager ?worse)))"
    by (simp add: register_then_reject_def)
  note fab = loadPlugin_failure [OF host_manager_load_ab]
  have x: "\<exists>pre ty post.
          getTaskTypes ?ab = pre @ ty # post
          \<and> register_all (pm_registry host_manager) pre = (None, pm_registry ?pm')
          \<and> (\<forall>t \<in> set pre. getTaskType (pm_registry ?pm') (tt_name t) = Some t)"
    using fab [THEN conjunct2, THEN conjunct2, THEN conjunct2, THEN conjunct2, THEN conjunct2,
               THEN conjunct2, THEN conjunct1, rule_format, OF conjI [OF ab conjI [OF nab iab]]]
    unfolding cab by blast
  have x': "\<exists>pre ty post.
          getTaskTypes ?ab = pre @ ty # post
          \<and> register_all (pm_registry host_manager) pre
              = (None, \<lparr>taskTypes = [(''B'', simpleType ''B''), (''A'', simpleType ''A'')],
                        taskTypeConfigs = []\<rparr>)
          \<and> (\<forall>t \<in> set pre. getTaskType
                 \<lparr>taskTypes = [(''B'', simpleType ''B''), (''A'', simpleType ''A'')],
                  taskTypeConfigs = []\<rparr> (tt_name t) = Some t)"
    using x by simp
  note fw = loadPlugin_failure [OF host_manager_load_worse]
  have pw: "pm'' = after_initialize host_manager ?worse
              (snd (register_then_reject (loadPlugin_context host_manager ?worse)))"
    if "pm'' = host_manager\<lparr>pm_registry :=
          \<lparr>taskTypes = [(''B'', simpleType ''B''), (''Y'', simpleType ''Y'')],
           taskTypeConfigs = []\<rparr>\<rparr>" for pm''
    using fw [THEN conjunct2, THEN conjunct2, THEN conjunct2, THEN conjunct2, THEN conjunct2,
               THEN conjunct1, rule_format, OF conjI [OF w conjI [OF nw iw]]] that
    by simp
  have lw: "loadPlugin modules host_manager ''/plugins/worse.js''
     = (Inl (Error ''Failed to load plugin from /plugins/worse.js: init failed''),
        after_initialize host_manager ?worse
          (snd (register_then_reject (loadPlugin_context host_manager ?worse))))"
    using host_manager_load_worse pw [OF refl] by simp
  note early = loadPlugin_failure [OF host_manager_load_none]
    loadPlugin_failure [OF boom_manager_load_boom] loadPlugin_failure [OF host_manager_load_bad]
  from early host_manager_load_none np boom_manager_load_boom lb host_manager_load_bad
    lw y ny host_manager_load_ab l x'
  show ?thesis by (intro conjI)
qed



section \<open>Properties of the task manager\<close>

lemma number_toString_1000: "number_toString 1000 = ''1000''"
  by (simp add: number_toString.simps digit_def)

lemma created_manager_eq:
  "created_manager =
     TaskManagerImpl_new
       \<lparr>tasks := [(''task-1000-k3j9x2m1q'', mockTask ''task-1000-k3j9x2m1q'' ''echo'' 1000)],
        taskStates := [(''task-1000-k3j9x2m1q'', CREATED)]\<rparr>"
  by (simp add: created_manager_def TaskManager_createTask_def generateTaskId_def
        number_toString_1000 TaskManagerImpl_new_def Let_def)

lemma completed_manager_eq:
  "completed_manager =
     TaskManagerImpl_new
       \<lparr>tasks := [(''task-1000-k3j9x2m1q'', mockTask ''task-1000-k3j9x2m1q'' ''echo'' 1000)],
        taskStates := [(''task-1000-k3j9x2m1q'', COMPLETED)]\<rparr>"
  by (simp add: completed_manager_def created_manager_eq executeTask_def executeTask_start_def
        executeTask_settle_def TaskManagerImpl_new_def Let_def mockTask_def)

lemma executeTask_start_Inr:
  "executeTask_start m taskId = Inr (task, context, m2) \<Longrightarrow>
   map_of (tasks m) taskId = Some task
   \<and> (getTaskStatus m taskId = Some CREATED \<or> getTaskStatus m taskId = Some QUEUED)
   \<and> getTaskStatus m2 taskId = Some RUNNING
   \<and> context = executeTask_context m
   \<and> m2 = m\<lparr>activeTasks := AList.update taskId task (activeTasks m),
             taskStates := AList.update taskId RUNNING (taskStates m)\<rparr>"
  by (auto simp add: executeTask_start_def getTaskStatus_def Let_def update_conv'
        executeTask_context_def split: option.splits if_splits)

lemma executeTask_start_accepts:
  "map_of (tasks m) taskId = Some task \<Longrightarrow>
   getTaskStatus m taskId = Some CREATED \<or> getTaskStatus m taskId = Some QUEUED \<Longrightarrow>
   executeTask_start m taskId =
     Inr (task, executeTask_context m,
          m\<lparr>activeTasks := AList.update taskId task (activeTasks m),
            taskStates := AList.update taskId RUNNING (taskStates m)\<rparr>)"
  by (auto simp add: executeTask_start_def getTaskStatus_def Let_def executeTask_context_def)

lemma executeTask_settle_Inr:
  "fst (executeTask_settle m taskId (Inr result)) = Inr result
   \<and> getTaskStatus (snd (executeTask_settle m taskId (Inr result))) taskId = Some COMPLETED
   \<and> taskId \<notin> set (getActiveTasks (snd (executeTask_settle m taskId (Inr result))))"
  using delete_notin_dom [of taskId "activeTasks m"]
  by (simp add: executeTask_settle_def getTaskStatus_def getActiveTasks_def Let_def update_conv')

lemma executeTask_settle_Inl:
  "fst (executeTask_settle m taskId (Inl err)) = Inl err
   \<and> getTaskStatus (snd (executeTask_settle m taskId (Inl err))) taskId = Some FAILED
   \<and> taskId \<notin> set (getActiveTasks (snd (executeTask_settle m taskId (Inl err))))"
  using delete_notin_dom [of taskId "activeTasks m"]
  by (simp add: executeTask_settle_def getTaskStatus_def getActiveTasks_def Let_def update_conv')

lemma running_manager_eq:
  "running_manager =
     TaskManagerImpl_new
       \<lparr>tasks := [(''task-1000-k3j9x2m1q'', mockTask ''task-1000-k3j9x2m1q'' ''echo'' 1000)],
        taskStates := [(''task-1000-k3j9x2m1q'', RUNNING)],
        activeTasks := [(''task-1000-k3j9x2m1q'', mockTask ''task-1000-k3j9x2m1q'' ''echo'' 1000)]\<rparr>"
  by (simp add: running_manager_def created_manager_eq executeTask_start_def
        TaskManagerImpl_new_def Let_def)

lemma paused_manager_eq:
  "paused_manager =
     TaskManagerImpl_new
       \<lparr>tasks := [(''task-1000-k3j9x2m1q'', mockTask ''task-1000-k3j9x2m1q'' ''echo'' 1000)],
        taskStates := [(''task-1000-k3j9x2m1q'', PAUSED)],
        activeTasks := [(''task-1000-k3j9x2m1q'', mockTask ''task-1000-k3j9x2m1q'' ''echo'' 1000)]\<rparr>"
  by (simp add: paused_manager_def running_manager_eq pauseTask_def
        TaskManagerImpl_new_def mockTask_def)

lemma canTransition_edges:
  "canTransition TaskStateMachineImpl CREATED RUNNING"
  "canTransition TaskStateMachineImpl QUEUED RUNNING"
  "canTransition TaskStateMachineImpl RUNNING COMPLETED"
  "canTransition TaskStateMachineImpl RUNNING FAILED"
  "canTransition TaskStateMachineImpl RUNNING PAUSED"
  "canTransition TaskStateMachineImpl PAUSED RUNNING"
  by (simp_all add: canTransition_def TaskStateMachineImpl_graph)

lemma executeTask_settle_status:
  "\<exists>s'. getTaskStatus (snd (executeTask_settle m2 taskId outcome)) taskId = Some s'
        \<and> canTransition TaskStateMachineImpl RUNNING s'"
  by (cases outcome) (simp_all add: executeTask_settle_Inl executeTask_settle_Inr canTransition_edges)

lemma pauseTask_Inr:
  "pauseTask m taskId = (Inr (), m') \<Longrightarrow>
   getTaskStatus m taskId = Some RUNNING \<and> getTaskStatus m' taskId = Some PAUSED"
  by (auto simp add: pauseTask_def getTaskStatus_def update_conv' split: option.splits if_splits)

lemma resumeTask_Inr:
  "resumeTask m taskId = (Inr (), m') \<Longrightarrow>
   getTaskStatus m taskId = Some PAUSED \<and> getTaskStatus m' taskId = Some RUNNING"
  by (auto simp add: resumeTask_def getTaskStatus_def update_conv' split: option.splits if_splits)

lemma cancelTask_Inr:
  "cancelTask m taskId reason = (Inr (), m') \<Longrightarrow> getTaskStatus m' taskId = Some CANCELLED"
  by (auto simp add: cancelTask_def getTaskStatus_def update_conv' Let_def split: option.splits)

lemma cancelTask_any_status:
  "getTask m taskId = Some task \<Longrightarrow> cancel task reason = None \<Longrightarrow>
   fst (cancelTask m taskId reason) = Inr ()
   \<and> getTaskStatus (snd (cancelTask m taskId reason)) taskId = Some CANCELLED"
  by (simp add: cancelTask_def getTask_def getTaskStatus_def update_conv' Let_def)

text \<open>
  Claim C4. \<open>executeTask\<close> fails with NotFound, the id in the message, when the id is
  unknown, and with NotExecutable when the status of the task is neither \<open>created\<close> nor
  \<open>queued\<close>; neither failure changes the manager. When the call is accepted and the
  task's \<open>execute\<close> resolves, the result is returned and the status is \<open>completed\<close>;
  when it rejects, the same error is thrown and the status is \<open>failed\<close>. In both
  outcomes the task is not in the active set afterwards.
\<close>

theorem executeTask_contract:
  "(getTask m taskId = None \<longrightarrow>
      executeTask m taskId = (Inl (Error (''Task '' @ taskId @ '' not found'')), m))
   \<and> (getTask m taskId = Some task \<and> getTaskStatus m taskId \<noteq> Some CREATED
        \<and> getTaskStatus m taskId \<noteq> Some QUEUED \<longrightarrow>
      executeTask m taskId = (Inl (Error (''Task '' @ taskId @ '' is not in executable state'')), m))
   \<and> (getTask m taskId = Some task
        \<and> (getTaskStatus m taskId = Some CREATED \<or> getTaskStatus m taskId = Some QUEUED)
        \<and> execute task (executeTask_context m) = Inr result \<longrightarrow>
      fst (executeTask m taskId) = Inr result
      \<and> getTaskStatus (snd (executeTask m taskId)) taskId = Some COMPLETED
      \<and> taskId \<notin> set (getActiveTasks (snd (executeTask m taskId))))
   \<and> (getTask m taskId = Some task
        \<and> (getTaskStatus m taskId = Some CREATED \<or> getTaskStatus m taskId = Some QUEUED)
        \<and> execute task (executeTask_context m) = Inl err \<longrightarrow>
      fst (executeTask m taskId) = Inl err
      \<and> getTaskStatus (snd (executeTask m taskId)) taskId = Some FAILED
      \<and> taskId \<notin> set (getActiveTasks (snd (executeTask m taskId))))"
proof (intro conjI impI)
  assume "getTask m taskId = None"
  then show "executeTask m taskId = (Inl (Error (''Task '' @ taskId @ '' not found'')), m)"
    by (simp add: executeTask_def executeTask_start_def getTask_def)
next
  assume "getTask m taskId = Some task \<and> getTaskStatus m taskId \<noteq> Some CREATED
        \<and> getTaskStatus m taskId \<noteq> Some QUEUED"
  then show "executeTask m taskId
      = (Inl (Error (''Task '' @ taskId @ '' is not in executable state'')), m)"
    by (simp add: executeTask_def executeTask_start_def getTask_def getTaskStatus_def)
next
  assume a: "getTask m taskId = Some task
        \<and> (getTaskStatus m taskId = Some CREATED \<or> getTaskStatus m taskId = Some QUEUED)
        \<and> execute task (executeTask_context m) = Inr result"
  then have e: "executeTask m taskId =
      executeTask_settle (m\<lparr>activeTasks := AList.update taskId task (activeTasks m),
            taskStates := AList.update taskId RUNNING (taskStates m)\<rparr>) taskId (Inr result)"
    using executeTask_start_accepts [of m taskId task]
    by (simp add: executeTask_def getTask_def)
  show "fst (executeTask m taskId) = Inr result"
    by (simp only: e executeTask_settle_Inr)
  show "getTaskStatus (snd (executeTask m taskId)) taskId = Some COMPLETED"
    by (simp only: e executeTask_settle_Inr)
  show "taskId \<notin> set (getActiveTasks (snd (executeTask m taskId)))"
    by (simp only: e executeTask_settle_Inr not_False_eq_True)
next
  assume a: "getTask m taskId = Some task
        \<and> (getTaskStatus m taskId = Some CREATED \<or> getTaskStatus m taskId = Some QUEUED)
        \<and> execute task (executeTask_context m) = Inl err"
  then have e: "executeTask m taskId =
      executeTask_settle (m\<lparr>activeTasks := AList.update taskId task (activeTasks m),
            taskStates := AList.update taskId RUNNING (taskStates m)\<rparr>) taskId (Inl err)"
    using executeTask_start_accepts [of m taskId task]
    by (simp add: executeTask_def getTask_def)
  show "fst (executeTask m taskId) = Inl err"
    by (simp only: e executeTask_settle_Inl)
  show "getTaskStatus (snd (executeTask m taskId)) taskId = Some FAILED"
    by (simp only: e executeTask_settle_Inl)
  show "taskId \<notin> set (getActiveTasks (snd (executeTask m taskId)))"
    by (simp only: e executeTask_settle_Inl not_False_eq_True)
qed

theorem executeTask_contract_witness:
  "getTask TaskManagerImpl_new ''nope'' = None
   \<and> executeTask TaskManagerImpl_new ''nope''
       = (Inl (Error ''Task nope not found''), TaskManagerImpl_new)
   \<and> getTaskStatus completed_manager ''task-1000-k3j9x2m1q'' = Some COMPLETED
   \<and> executeTask completed_manager ''task-1000-k3j9x2m1q''
       = (Inl (Error ''Task task-1000-k3j9x2m1q is not in executable state''), completed_manager)
   \<and> getTaskStatus created_manager ''task-1000-k3j9x2m1q'' = Some CREATED
   \<and> fst (executeTask created_manager ''task-1000-k3j9x2m1q'')
       = Inr \<lparr>r_success = True,
              r_output = Str ''Task task-1000-k3j9x2m1q executed successfully''\<rparr>
   \<and> getTaskStatus (snd (executeTask created_manager ''task-1000-k3j9x2m1q''))
        ''task-1000-k3j9x2m1q'' = Some COMPLETED
   \<and> ''task-1000-k3j9x2m1q''
        \<notin> set (getActiveTasks (snd (executeTask created_manager ''task-1000-k3j9x2m1q'')))
   \<and> getTaskStatus failing_manager ''t2'' = Some QUEUED
   \<and> fst (executeTask failing_manager ''t2'') = Inl (Error ''boom'')
   \<and> getTaskStatus (snd (executeTask failing_manager ''t2'')) ''t2'' = Some FAILED
   \<and> ''t2'' \<notin> set (getActiveTasks (snd (executeTask failing_manager ''t2'')))"
proof -
  let ?id = "''task-1000-k3j9x2m1q''"
  let ?t = "mockTask ?id ''echo'' 1000"
  let ?ft = "(mockTask ''t2'' ''echo'' 0)\<lparr>execute := (\<lambda>context. Inl (Error ''boom''))\<rparr>"
  let ?r = "\<lparr>r_success = True, r_output = Str ''Task task-1000-k3j9x2m1q executed successfully''\<rparr>"
  have a1: "getTask TaskManagerImpl_new ''nope'' = None"
    by (simp add: getTask_def TaskManagerImpl_new_def)
  have b1: "getTask completed_manager ?id = Some ?t"
    by (simp add: getTask_def completed_manager_eq TaskManagerImpl_new_def)
  have b2: "getTaskStatus completed_manager ?id = Some COMPLETED"
    by (simp add: getTaskStatus_def completed_manager_eq TaskManagerImpl_new_def)
  have c1: "getTask created_manager ?id = Some ?t"
    by (simp add: getTask_def created_manager_eq TaskManagerImpl_new_def)
  have c2: "getTaskStatus created_manager ?id = Some CREATED"
    by (simp add: getTaskStatus_def created_manager_eq TaskManagerImpl_new_def)
  have c3: "execute ?t (executeTask_context created_manager) = Inr ?r"
    by (simp add: mockTask_def)
  have d1: "getTask failing_manager ''t2'' = Some ?ft"
    by (simp add: getTask_def failing_manager_def TaskManagerImpl_new_def)
  have d2: "getTaskStatus failing_manager ''t2'' = Some QUEUED"
    by (simp add: getTaskStatus_def failing_manager_def TaskManagerImpl_new_def)
  have d3: "execute ?ft (executeTask_context failing_manager) = Inl (Error ''boom'')"
    by simp
  show ?thesis
    using a1 b1 b2 c1 c2 c3 d1 d2 d3
      executeTask_contract [of TaskManagerImpl_new "''nope''"]
      executeTask_contract [of completed_manager ?id ?t]
      executeTask_contract [of created_manager ?id ?t ?r]
      executeTask_contract [of failing_manager "''t2''" ?ft _ "Error ''boom''"]
    by simp
qed

text \<open>
  Claim C1, as stated, fails: \<open>cancelTask\<close> does not consult the state machine. On a
  task that has completed it succeeds and sets the status \<open>cancelled\<close>, although the
  manager's state machine has no edge from \<open>completed\<close> to \<open>cancelled\<close>.
\<close>

theorem cancel_completed_counterexample:
  "getTaskStatus completed_manager ''task-1000-k3j9x2m1q'' = Some COMPLETED
   \<and> fst (cancelTask completed_manager ''task-1000-k3j9x2m1q'' None) = Inr ()
   \<and> getTaskStatus (snd (cancelTask completed_manager ''task-1000-k3j9x2m1q'' None))
        ''task-1000-k3j9x2m1q'' = Some CANCELLED
   \<and> \<not> canTransition (stateMachine completed_manager) COMPLETED CANCELLED"
  by (simp add: completed_manager_eq getTaskStatus_def cancelTask_def TaskManagerImpl_new_def
        mockTask_def canTransition_def TaskStateMachineImpl_graph)

text \<open>
  Claim C1, amended. The status changes that \<open>executeTask\<close>, \<open>pauseTask\<close> and
  \<open>resumeTask\<close> commit are edges of the state machine's graph, by the status tests of
  these operations themselves: \<open>executeTask\<close> moves the task from its status to
  \<open>running\<close> and from \<open>running\<close> to its terminal status, \<open>pauseTask\<close> from
  \<open>running\<close> to \<open>paused\<close>, \<open>resumeTask\<close> from \<open>paused\<close> to \<open>running\<close>.
  \<open>cancelTask\<close> on a known task whose \<open>cancel\<close> resolves sets \<open>cancelled\<close> whatever
  the status was, and \<open>createTask\<close> sets \<open>created\<close>; neither is checked.
\<close>

theorem status_changes:
  "(executeTask_start m taskId = Inr (task, context, m2) \<longrightarrow>
      (\<exists>s. getTaskStatus m taskId = Some s \<and> canTransition TaskStateMachineImpl s RUNNING)
      \<and> getTaskStatus m2 taskId = Some RUNNING
      \<and> (\<exists>s'. getTaskStatus (snd (executeTask_settle m2 taskId outcome)) taskId = Some s'
            \<and> canTransition TaskStateMachineImpl RUNNING s'))
   \<and> (pauseTask m taskId = (Inr (), m') \<longrightarrow>
      (\<exists>s. getTaskStatus m taskId = Some s \<and> canTransition TaskStateMachineImpl s PAUSED)
      \<and> getTaskStatus m' taskId = Some PAUSED)
   \<and> (resumeTask m taskId = (Inr (), m') \<longrightarrow>
      (\<exists>s. getTaskStatus m taskId = Some s \<and> canTransition TaskStateMachineImpl s RUNNING)
      \<and> getTaskStatus m' taskId = Some RUNNING)
   \<and> (getTask m taskId = Some task' \<and> cancel task' reason = None \<longrightarrow>
      fst (cancelTask m taskId reason) = Inr ()
      \<and> getTaskStatus (snd (cancelTask m taskId reason)) taskId = Some CANCELLED)
   \<and> getTaskStatus (snd (TaskManager_createTask m now rnd taskType inp))
        (fst (TaskManager_createTask m now rnd taskType inp)) = Some CREATED"
proof (intro conjI impI)
  assume a: "executeTask_start m taskId = Inr (task, context, m2)"
  show "\<exists>s. getTaskStatus m taskId = Some s \<and> canTransition TaskStateMachineImpl s RUNNING"
    using executeTask_start_Inr [OF a] canTransition_edges by auto
  show "getTaskStatus m2 taskId = Some RUNNING"
    using executeTask_start_Inr [OF a] by blast
  show "\<exists>s'. getTaskStatus (snd (executeTask_settle m2 taskId outcome)) taskId = Some s'
            \<and> canTransition TaskStateMachineImpl RUNNING s'"
    by (rule executeTask_settle_status)
next
  assume a: "pauseTask m taskId = (Inr (), m')"
  show "\<exists>s. getTaskStatus m taskId = Some s \<and> canTransition TaskStateMachineImpl s PAUSED"
    using pauseTask_Inr [OF a] canTransition_edges by auto
  show "getTaskStatus m' taskId = Some PAUSED"
    using pauseTask_Inr [OF a] by simp
next
  assume a: "resumeTask m taskId = (Inr (), m')"
  show "\<exists>s. getTaskStatus m taskId = Some s \<and> canTransition TaskStateMachineImpl s RUNNING"
    using resumeTask_Inr [OF a] canTransition_edges by auto
  show "getTaskStatus m' taskId = Some RUNNING"
    using resumeTask_Inr [OF a] by simp
next
  assume a: "getTask m taskId = Some task' \<and> cancel task' reason = None"
  show "fst (cancelTask m taskId reason) = Inr ()"
    using cancelTask_any_status a by blast
  show "getTaskStatus (snd (cancelTask m taskId reason)) taskId = Some CANCELLED"
    using cancelTask_any_status a by blast
next
  show "getTaskStatus (snd (TaskManager_createTask m now rnd taskType inp))
        (fst (TaskManager_createTask m now rnd taskType inp)) = Some CREATED"
    by (simp add: TaskManager_createTask_def Let_def getTaskStatus_def update_conv')
qed

theorem status_changes_witness:
  "executeTask_start created_manager ''task-1000-k3j9x2m1q''
     = Inr (mockTask ''task-1000-k3j9x2m1q'' ''echo'' 1000, executeTask_context created_manager,
            running_manager)
   \<and> getTaskStatus created_manager ''task-1000-k3j9x2m1q'' = Some CREATED
   \<and> getTaskStatus running_manager ''task-1000-k3j9x2m1q'' = Some RUNNING
   \<and> pauseTask running_manager ''task-1000-k3j9x2m1q'' = (Inr (), paused_manager)
   \<and> getTaskStatus paused_manager ''task-1000-k3j9x2m1q'' = Some PAUSED
   \<and> resumeTask paused_manager ''task-1000-k3j9x2m1q'' = (Inr (), running_manager)
   \<and> fst (cancelTask paused_manager ''task-1000-k3j9x2m1q'' (Some ''stop'')) = Inr ()
   \<and> getTaskStatus (snd (cancelTask paused_manager ''task-1000-k3j9x2m1q'' (Some ''stop'')))
        ''task-1000-k3j9x2m1q'' = Some CANCELLED"
proof -
  let ?id = "''task-1000-k3j9x2m1q''"
  let ?t = "mockTask ?id ''echo'' 1000"
  have s: "executeTask_start created_manager ?id
     = Inr (?t, executeTask_context created_manager, running_manager)"
    by (simp add: running_manager_eq created_manager_eq executeTask_start_def
          TaskManagerImpl_new_def Let_def executeTask_context_def)
  have p: "pauseTask running_manager ?id = (Inr (), paused_manager)"
    by (simp add: running_manager_eq paused_manager_eq pauseTask_def
          TaskManagerImpl_new_def mockTask_def)
  have r: "resumeTask paused_manager ?id = (Inr (), running_manager)"
    by (simp add: running_manager_eq paused_manager_eq resumeTask_def
          TaskManagerImpl_new_def mockTask_def)
  have g: "getTask paused_manager ?id = Some ?t \<and> cancel ?t (Some ''stop'') = None"
    by (simp add: getTask_def paused_manager_eq TaskManagerImpl_new_def mockTask_def)
  have c: "getTaskStatus created_manager ?id = Some CREATED"
    by (simp add: getTaskStatus_def created_manager_eq TaskManagerImpl_new_def)
  show ?thesis
    using s p r g c
      status_changes [of created_manager ?id ?t "executeTask_context created_manager"
         running_manager]
      status_changes [of running_manager ?id _ _ _ _ paused_manager]
      status_changes [of paused_manager ?id _ _ _ _ running_manager ?t "Some ''stop''"]
    by simp
qed

end
